theory Spec2Isabelle
  imports Main "HOL-Library.AList"
begin

section \<open>JavaScript string operations\<close>

text \<open>
  A JavaScript string is a sequence of UTF-16 code units. The texts the transformer
  works on are \<open>char list\<close>; the stack traces of the caller-detection probe are lists
  of code units. The operations below are the ones the sources use, on either kind:
  \<^verbatim>\<open>s.startsWith(p)\<close>, \<^verbatim>\<open>s.endsWith(p)\<close>, \<^verbatim>\<open>s.includes(sub)\<close> and
  \<^verbatim>\<open>s.replace(pat, rep)\<close> with a string pattern (or a regular expression that matches
  one literal text), which replaces the leftmost occurrence only. The replacement text
  is inserted literally; JavaScript does so whenever the replacement contains no \<open>$\<close>.
\<close>

definition startsWith :: "'a list \<Rightarrow> 'a list \<Rightarrow> bool" where
  "startsWith s p = (take (length p) s = p)"

definition endsWith :: "'a list \<Rightarrow> 'a list \<Rightarrow> bool" where
  "endsWith s p = (length p \<le> length s \<and> drop (length s - length p) s = p)"

fun includes_str :: "'a list \<Rightarrow> 'a list \<Rightarrow> bool" where
  "includes_str [] sub = (sub = [])"
| "includes_str (c # cs) sub = (startsWith (c # cs) sub \<or> includes_str cs sub)"

fun replace :: "'a list \<Rightarrow> 'a list \<Rightarrow> 'a list \<Rightarrow> 'a list" where
  "replace [] pat rep = (if pat = [] then rep else [])"
| "replace (c # cs) pat rep =
     (if startsWith (c # cs) pat then rep @ drop (length pat) (c # cs)
      else c # replace cs pat rep)"

section \<open>The syntax tree seen by the transformer\<close>

text \<open>
  \<^verbatim>\<open>transformer.ts\<close> works on the ts-morph tree of one source file. The passes only
  look at import declarations, call expressions and \<open>new\<close> expressions, and inside those
  only at the callee, the type arguments and the arguments. The model keeps exactly
  these parts, each site in source order; all other text of the file is touched by no
  pass and is not represented. The passes are modelled as they act on a TypeScript
  file, in which \<open>object.get<T>(...)\<close> is a call with a type argument; a path ending
  in \<open>.js\<close> or \<open>.jsx\<close> is parsed as JavaScript, where the text the first pass writes
  is not such a call.

  An argument or initializer is a string literal, an object literal, or any other
  expression (kept as its text: an identifier, a spread element, a template, ...).
  A member of an object literal is a property assignment \<open>name: initializer\<close>, another
  named member (shorthand property, method, accessor), or a spread assignment, which
  has no name. The name of a member is its text as written, quotes included, which is
  what \<^verbatim>\<open>getName\<close> compares.

  A call site records its callee, its spacing, its type arguments and its arguments.
  Of a property-access callee \<open>object.name\<close> the model keeps the text that stands before
  the dot (the receiver, with the white space and comments that follow it) and the
  name. The spacing is the white space and comments between the dot and the name and
  between the name and the opening parenthesis of a call without type arguments; it
  is empty in \<open>object.get(...)\<close>.

  Every call expression of the file is a site, also one that lies inside the receiver
  or an argument of another site: its text is then part of the receiver or argument
  text of the outer site as well, and the model does not carry a change of the one
  over to the other. The passes of the model are total; the source raises when a
  located site lies inside a site that a pass has replaced or inside a member that a
  pass has removed. A site whose receiver and arguments hold no call is described by
  \<open>plainCall\<close> below.
\<close>

datatype expression =
    StringLiteral string
  | ObjectLiteralExpression "property list"
  | OtherExpression string
and property =
    PropertyAssignment string expression
  | NamedMember string
  | SpreadAssignment string

datatype callee_expression =
    PropertyAccessExpression string string
  | OtherCallee string

record call_expression =
  callExpression :: callee_expression
  callSpacing :: string
  callTypeArguments :: "string list"
  callArguments :: "expression list"

text \<open>
  The ancestors of a \<open>new\<close> expression, nearest first, as far as
  \<^verbatim>\<open>findContainingFunctionName\<close> distinguishes them. A variable declaration records
  its name and whether its initializer is an arrow function or a function expression.
\<close>

datatype node =
    FunctionDeclaration "string option"
  | FunctionExpression "string option"
  | ArrowFunction
  | VariableDeclaration string bool
  | OtherNode

record new_expression =
  newExpression :: string
  newArguments :: "expression list"
  newAncestors :: "node list"

record import_declaration =
  moduleSpecifier :: string
  namedImports :: "string list"
  isTypeOnly :: bool

record source_file =
  importDeclarations :: "import_declaration list"
  callExpressions :: "call_expression list"
  newExpressions :: "new_expression list"

subsection \<open>Object literal members\<close>

text \<open>
  \<^verbatim>\<open>objectLiteral.getProperty(name)\<close> returns the first member that has a name equal
  to \<open>name\<close>; \<^verbatim>\<open>member.remove()\<close> deletes that member from the literal. Deleting
  the first member equal to the one found deletes the one found: an equal member has
  the same name, and the one found is the first with that name.
\<close>

fun getName :: "property \<Rightarrow> string option" where
  "getName (PropertyAssignment n _) = Some n"
| "getName (NamedMember n) = Some n"
| "getName (SpreadAssignment _) = None"

definition getProperty :: "property list \<Rightarrow> string \<Rightarrow> property option" where
  "getProperty ps n = find (\<lambda>p. getName p = Some n) ps"

fun remove :: "property option \<Rightarrow> property list \<Rightarrow> property list" where
  "remove None ps = ps"
| "remove (Some p) ps = remove1 p ps"

section \<open>The call-site locator\<close>

definition isZodOutputArgument :: "expression \<Rightarrow> bool" where
  "isZodOutputArgument arg =
     (case arg of
        ObjectLiteralExpression ps \<Rightarrow> getProperty ps ''zodOutput'' \<noteq> None
      | _ \<Rightarrow> False)"

definition httpClientWithZodOutput :: "new_expression \<Rightarrow> bool" where
  "httpClientWithZodOutput newExpr =
     (newExpression newExpr = ''HttpClient'' \<and> list_ex isZodOutputArgument (newArguments newExpr))"

definition findHttpClientCallsWithZodOutput :: "source_file \<Rightarrow> new_expression list" where
  "findHttpClientCallsWithZodOutput sourceFile =
     filter httpClientWithZodOutput (newExpressions sourceFile)"

definition katalistCallWithSchemaGeneration :: "call_expression \<Rightarrow> bool" where
  "katalistCallWithSchemaGeneration callExpr =
     (case callExpression callExpr of
        OtherCallee _ \<Rightarrow> False
      | PropertyAccessExpression object propertyName \<Rightarrow>
          (if propertyName \<noteq> ''get'' then False
           else if length (callArguments callExpr) < 2 then False
           else (case callArguments callExpr ! 1 of
                   ObjectLiteralExpression ps \<Rightarrow>
                     getProperty ps ''generateSchema'' \<noteq> None \<and>
                     getProperty ps ''interfaceName'' \<noteq> None
                 | _ \<Rightarrow> False)))"

definition findKatalistCallsWithSchemaGeneration :: "source_file \<Rightarrow> call_expression list" where
  "findKatalistCallsWithSchemaGeneration sourceFile =
     filter katalistCallWithSchemaGeneration (callExpressions sourceFile)"

section \<open>The rewrite passes\<close>

subsection \<open>Type-parameter injection\<close>

text \<open>
  The pass rewrites the text of the call with
  \<^verbatim>\<open>callText.replace(/\.get\(/, `.get<${typeName}>(`)\<close> and re-parses it. The text of a
  call without type arguments is the text of \<open>object\<close>, then the dot, the name and the
  parenthesis with the arguments, with the spacing between the dot, the name and the
  parenthesis. So the leftmost match lies inside \<open>object\<close> when
  \<open>object\<close> contains \<open>.get(\<close>: the inserted text lands in the receiver, which is the
  text of an inner call, and the call itself still has no type argument. Otherwise the
  leftmost match is the call's own \<open>.get(\<close> when the spacing is empty, and the call
  gets the type argument. When the spacing is not empty the call's own name is no
  match, and the call is left as it is; a match further right, in the spacing or the
  arguments, is not followed, nor is a replacement pattern (\<open>$&\<close> and the like) in the
  type name expanded: \<open>plainCall\<close> below describes the sites that have neither.
\<close>

definition replaceWithText :: "call_expression \<Rightarrow> string \<Rightarrow> call_expression" where
  "replaceWithText callExpr typeName =
     (case callExpression callExpr of
        OtherCallee _ \<Rightarrow> callExpr
      | PropertyAccessExpression object propertyName \<Rightarrow>
          (if includes_str object ''.get('' then
             callExpr\<lparr>callExpression :=
               PropertyAccessExpression
                 (replace object ''.get('' (''.get<'' @ typeName @ ''>('')) propertyName\<rparr>
           else if propertyName = ''get'' \<and> callSpacing callExpr = [] then
             callExpr\<lparr>callTypeArguments := [typeName]\<rparr>
           else callExpr))"

definition addTypeParameter :: "call_expression \<Rightarrow> call_expression" where
  "addTypeParameter callExpr =
     (case callExpression callExpr of
        OtherCallee _ \<Rightarrow> callExpr
      | PropertyAccessExpression _ _ \<Rightarrow>
          (if length (callTypeArguments callExpr) > 0 then callExpr
           else if length (callArguments callExpr) \<ge> 2 then
             (case callArguments callExpr ! 1 of
                ObjectLiteralExpression ps \<Rightarrow>
                  (case getProperty ps ''interfaceName'' of
                     Some (PropertyAssignment _ (StringLiteral interfaceName)) \<Rightarrow>
                       replaceWithText callExpr (interfaceName @ ''SchemaType'')
                   | _ \<Rightarrow> callExpr)
              | _ \<Rightarrow> callExpr)
           else callExpr))"

definition addTypeParametersToKatalistCalls :: "source_file \<Rightarrow> source_file" where
  "addTypeParametersToKatalistCalls sourceFile =
     sourceFile\<lparr>callExpressions :=
       map (\<lambda>c. if katalistCallWithSchemaGeneration c then addTypeParameter c else c)
         (callExpressions sourceFile)\<rparr>"

subsection \<open>Import injection\<close>

text \<open>
  \<^verbatim>\<open>calculateHttpSchemasPath\<close> takes the result of
  \<^verbatim>\<open>join(relative(dirname(sourceFilePath), process.cwd()), "http-schemas")\<close>, computed by
  the runtime's path library, as its argument \<open>httpSchemasPath\<close>.
\<close>

definition calculateHttpSchemasPath :: "string \<Rightarrow> string" where
  "calculateHttpSchemasPath httpSchemasPath =
     (if startsWith httpSchemasPath ''..'' then httpSchemasPath else ''./'' @ httpSchemasPath)"

definition hasImport :: "import_declaration list \<Rightarrow> string \<Rightarrow> string \<Rightarrow> bool" where
  "hasImport existingImports schemaName typeName =
     list_ex (\<lambda>importDecl.
        includes_str (moduleSpecifier importDecl) schemaName \<and>
        list_ex (\<lambda>namedImport. namedImport = typeName) (namedImports importDecl))
       existingImports"

text \<open>
  The loop over the located calls. \<open>existingImports\<close> is read once before the loop;
  \<^verbatim>\<open>addImportDeclaration\<close> puts the new declaration after the last import.
\<close>

fun addImports ::
  "string \<Rightarrow> import_declaration list \<Rightarrow> call_expression list \<Rightarrow>
   import_declaration list \<Rightarrow> import_declaration list" where
  "addImports httpSchemasBasePath existingImports [] decls = decls"
| "addImports httpSchemasBasePath existingImports (callExpr # rest) decls =
     (case callExpression callExpr of
        OtherCallee _ \<Rightarrow> addImports httpSchemasBasePath existingImports rest decls
      | PropertyAccessExpression _ _ \<Rightarrow>
          (case callTypeArguments callExpr of
             [] \<Rightarrow> addImports httpSchemasBasePath existingImports rest decls
           | typeName # _ \<Rightarrow>
               (let schemaName = replace typeName ''SchemaType'' '''' in
                if \<not> hasImport existingImports schemaName typeName then
                  addImports httpSchemasBasePath existingImports rest
                    (decls @ [\<lparr>moduleSpecifier = httpSchemasBasePath @ ''/'' @ schemaName,
                               namedImports = [typeName], isTypeOnly = True\<rparr>])
                else addImports httpSchemasBasePath existingImports rest decls)))"

definition addKatalistSchemaImports :: "string \<Rightarrow> source_file \<Rightarrow> source_file" where
  "addKatalistSchemaImports httpSchemasBasePath sourceFile =
     sourceFile\<lparr>importDeclarations :=
       addImports httpSchemasBasePath (importDeclarations sourceFile)
         (findKatalistCallsWithSchemaGeneration sourceFile) (importDeclarations sourceFile)\<rparr>"

subsection \<open>Embedded-schema property removal\<close>

definition removeZodOutputArgument :: "expression \<Rightarrow> expression" where
  "removeZodOutputArgument arg =
     (case arg of
        ObjectLiteralExpression ps \<Rightarrow>
          (let zodOutputProperty = getProperty ps ''zodOutput'';
               forceFileTransformProperty = getProperty ps ''forceFileTransform''
           in if zodOutputProperty \<noteq> None
              then ObjectLiteralExpression
                     (remove forceFileTransformProperty (remove zodOutputProperty ps))
              else arg)
      | _ \<Rightarrow> arg)"

definition removeZodOutput :: "source_file \<Rightarrow> source_file" where
  "removeZodOutput sourceFile =
     sourceFile\<lparr>newExpressions :=
       map (\<lambda>n. if httpClientWithZodOutput n
                then n\<lparr>newArguments := map removeZodOutputArgument (newArguments n)\<rparr>
                else n)
         (newExpressions sourceFile)\<rparr>"

subsection \<open>Generation-option stripping\<close>

definition removeOptions :: "property list \<Rightarrow> property list" where
  "removeOptions ps =
     (let generateSchemaProperty = getProperty ps ''generateSchema'';
          interfaceNameProperty = getProperty ps ''interfaceName'';
          sourceFileProperty = getProperty ps ''sourceFile''
      in remove sourceFileProperty
           (remove interfaceNameProperty (remove generateSchemaProperty ps)))"

definition removeCallOptions :: "call_expression \<Rightarrow> call_expression" where
  "removeCallOptions call =
     (if length (callArguments call) \<ge> 2 then
        (case callArguments call ! 1 of
           ObjectLiteralExpression ps \<Rightarrow>
             call\<lparr>callArguments :=
               (callArguments call)[1 := ObjectLiteralExpression (removeOptions ps)]\<rparr>
         | _ \<Rightarrow> call)
      else call)"

definition removeSchemaGenerationOptions :: "source_file \<Rightarrow> source_file" where
  "removeSchemaGenerationOptions sourceFile =
     sourceFile\<lparr>callExpressions :=
       map (\<lambda>c. if katalistCallWithSchemaGeneration c then removeCallOptions c else c)
         (callExpressions sourceFile)\<rparr>"

section \<open>The transform engine\<close>

text \<open>
  The file store maps a path to the tree of the file's text. The formatter is a
  parameter: \<open>formatWithBiome\<close> maps the tree the passes leave to the tree of the
  formatted text, which is what a run returns and writes and what a later run reads.
  The formatter changes layout and the way of writing tokens (it drops, for example,
  the quotes of a quoted member name that needs none). The third and the fourth pass
  also format the text and drop the result, which changes nothing. Opening a path
  that is not in the store raises, as \<^verbatim>\<open>project.addSourceFileAtPath\<close> does. The
  parameter \<open>joinRelative\<close> is the path library's
  \<^verbatim>\<open>join(relative(dirname(p), cwd), "http-schemas")\<close>.
\<close>

datatype error = FileNotFound | Thrown string | HTTPError nat

type_synonym file_store = "string \<rightharpoonup> source_file"

definition applyPasses :: "string \<Rightarrow> source_file \<Rightarrow> source_file" where
  "applyPasses httpSchemasBasePath sourceFile =
     removeSchemaGenerationOptions
       (removeZodOutput
          (addKatalistSchemaImports httpSchemasBasePath
             (addTypeParametersToKatalistCalls sourceFile)))"

definition transformedPath :: "string \<Rightarrow> string" where
  "transformedPath sourceFilePath = replace sourceFilePath ''.ts'' ''.transformed.ts''"

definition transformHttpClientCall ::
  "(source_file \<Rightarrow> source_file) \<Rightarrow> (string \<Rightarrow> string) \<Rightarrow> file_store \<Rightarrow> string \<Rightarrow> bool \<Rightarrow>
   error + (file_store \<times> source_file)" where
  "transformHttpClientCall formatWithBiome joinRelative store sourceFilePath
       addTransformFilePath =
     (case store sourceFilePath of
        None \<Rightarrow> Inl FileNotFound
      | Some sourceFile \<Rightarrow>
          (let formatted =
                 formatWithBiome
                   (applyPasses (calculateHttpSchemasPath (joinRelative sourceFilePath))
                      sourceFile)
           in if addTransformFilePath
              then Inr (store(transformedPath sourceFilePath \<mapsto> formatted), formatted)
              else Inr (store(sourceFilePath \<mapsto> formatted), formatted)))"

section \<open>The variable-correlation sub-algorithm\<close>

definition isFunctionVariableDeclaration :: "node \<Rightarrow> bool" where
  "isFunctionVariableDeclaration n =
     (case n of VariableDeclaration _ functionInitializer \<Rightarrow> functionInitializer | _ \<Rightarrow> False)"

text \<open>\<^verbatim>\<open>node.getName() || "anonymous"\<close>: a missing or empty name gives the sentinel.\<close>

definition orAnonymous :: "string option \<Rightarrow> string" where
  "orAnonymous name =
     (case name of None \<Rightarrow> ''anonymous'' | Some n \<Rightarrow> if n = [] then ''anonymous'' else n)"

fun getNodeName :: "node \<Rightarrow> string" where
  "getNodeName (VariableDeclaration name _) = orAnonymous (Some name)"
| "getNodeName (FunctionDeclaration name) = orAnonymous name"
| "getNodeName (FunctionExpression name) = orAnonymous name"
| "getNodeName _ = ''anonymous''"

text \<open>
  The argument is the list of ancestors of the node the source passes in, nearest
  first: the loop starts at \<^verbatim>\<open>node.getParent()\<close> and climbs.
\<close>

fun findContainingFunctionName :: "node list \<Rightarrow> string" where
  "findContainingFunctionName [] = ''global''"
| "findContainingFunctionName (current # up) =
     (case current of
        FunctionDeclaration _ \<Rightarrow> getNodeName current
      | FunctionExpression _ \<Rightarrow> getNodeName current
      | ArrowFunction \<Rightarrow>
          (case up of
             VariableDeclaration name functionInitializer # _ \<Rightarrow>
               getNodeName (VariableDeclaration name functionInitializer)
           | _ \<Rightarrow> ''anonymous'')
      | VariableDeclaration _ _ \<Rightarrow>
          (if isFunctionVariableDeclaration current then getNodeName current
           else findContainingFunctionName up)
      | OtherNode \<Rightarrow> findContainingFunctionName up)"

definition extractSchemaNameFromZodOutput :: "property \<Rightarrow> string option" where
  "extractSchemaNameFromZodOutput zodOutputProperty =
     (case zodOutputProperty of
        PropertyAssignment _ (ObjectLiteralExpression ps) \<Rightarrow>
          (case getProperty ps ''schemaName'' of
             Some (PropertyAssignment _ (StringLiteral schemaName)) \<Rightarrow>
               Some (schemaName @ ''OutputSchemaType'')
           | _ \<Rightarrow> None)
      | _ \<Rightarrow> None)"

fun extractTypeFromHttpClientArgs :: "expression list \<Rightarrow> string option" where
  "extractTypeFromHttpClientArgs [] = None"
| "extractTypeFromHttpClientArgs (arg # args) =
     (case arg of
        ObjectLiteralExpression ps \<Rightarrow>
          (case getProperty ps ''zodOutput'' of
             Some (PropertyAssignment n e) \<Rightarrow> extractSchemaNameFromZodOutput (PropertyAssignment n e)
           | _ \<Rightarrow> extractTypeFromHttpClientArgs args)
      | _ \<Rightarrow> extractTypeFromHttpClientArgs args)"

record http_client_info =
  infoTypeName :: string
  infoFunctionName :: string

text \<open>
  The JavaScript \<open>Map\<close> is an association list in insertion order; \<open>Map.set\<close> on a key
  that is present replaces its entry in place, as \<^const>\<open>AList.update\<close> does. The optional
  parameter \<open>functionNames\<close> is \<open>None\<close> when the caller leaves it out.
\<close>

fun extractLoop ::
  "string list option \<Rightarrow> new_expression list \<Rightarrow> (string \<times> http_client_info) list \<Rightarrow> bool \<Rightarrow>
   (string \<times> http_client_info) list" where
  "extractLoop functionNames [] httpClientToTypeMap processedFirstFunction = httpClientToTypeMap"
| "extractLoop functionNames (call # rest) httpClientToTypeMap processedFirstFunction =
     (case newAncestors call of
        VariableDeclaration variableName _ # up \<Rightarrow>
          (let functionName = findContainingFunctionName up in
           if (case functionNames of
                 None \<Rightarrow> False
               | Some names \<Rightarrow> length names > 0 \<and> functionName \<notin> set names \<and>
                               ''<anonymous>'' \<notin> set names)
           then extractLoop functionNames rest httpClientToTypeMap processedFirstFunction
           else if (case functionNames of None \<Rightarrow> False
                    | Some names \<Rightarrow> ''<anonymous>'' \<in> set names) \<and> processedFirstFunction
           then extractLoop functionNames rest httpClientToTypeMap processedFirstFunction
           else (case extractTypeFromHttpClientArgs (newArguments call) of
                   Some typeName \<Rightarrow>
                     extractLoop functionNames rest
                       (AList.update (variableName @ '':'' @ functionName)
                          \<lparr>infoTypeName = typeName, infoFunctionName = functionName\<rparr>
                          httpClientToTypeMap)
                       True
                 | None \<Rightarrow>
                     extractLoop functionNames rest httpClientToTypeMap processedFirstFunction))
      | _ \<Rightarrow> extractLoop functionNames rest httpClientToTypeMap processedFirstFunction)"

definition extractHttpClientVariablesWithZodOutput ::
  "source_file \<Rightarrow> string list option \<Rightarrow> (string \<times> http_client_info) list" where
  "extractHttpClientVariablesWithZodOutput sourceFile functionNames =
     extractLoop functionNames (findHttpClientCallsWithZodOutput sourceFile) [] False"

section \<open>The schema synthesizer\<close>

datatype json =
    JNull
  | JBoolean bool
  | JNumber int
  | JString string
  | JArray "json list"
  | JObject "(string \<times> json) list"

text \<open>
  A JSON-schema node as \<^verbatim>\<open>generate-schema\<close> builds it: the fields the repository reads
  or writes. \<open>schemaProperties\<close> lists the entries of \<^verbatim>\<open>properties\<close> in enumeration order.
\<close>

datatype json_schema =
  JsonSchema
    (schemaType: "string option")
    (schemaProperties: "(string \<times> json_schema) list option")
    (schemaRequired: "string list option")
    (schemaItems: "json_schema option")
    (schemaTitle: "string option")
    (schemaDialect: "string option")

fun addRequiredToAllObjects :: "json_schema \<Rightarrow> json_schema" where
  "addRequiredToAllObjects (JsonSchema ty props req its ttl dialect) =
     (if ty = Some ''object'' then
        (case props of
           None \<Rightarrow> JsonSchema ty props req its ttl dialect
         | Some ps \<Rightarrow>
             (let requiredProps =
                    map fst (filter (\<lambda>(key, prop). schemaType prop \<noteq> Some ''null'') ps)
              in JsonSchema ty
                   (Some (map (\<lambda>(key, prop). (key, addRequiredToAllObjects prop)) ps))
                   (if length requiredProps > 0 then Some requiredProps else req)
                   its ttl dialect))
      else JsonSchema ty props req its ttl dialect)"

text \<open>
  \<open>generateSchemaJson\<close> is the inference of the \<^verbatim>\<open>generate-schema\<close> package, a parameter
  of the model.
\<close>

definition jsontoJsonSchema :: "(json \<Rightarrow> json_schema) \<Rightarrow> json \<Rightarrow> string \<Rightarrow> json_schema" where
  "jsontoJsonSchema generateSchemaJson data name =
     (case generateSchemaJson data of
        JsonSchema ty props req its _ _ \<Rightarrow>
          addRequiredToAllObjects (JsonSchema ty props req its (Some name) None))"

section \<open>The caller-detection probe\<close>

text \<open>
  A stack trace is a list of UTF-16 code units, each a natural number, and the regular
  expression of \<^verbatim>\<open>getCallerFilePath\<close>, which has no \<^verbatim>\<open>u\<close> flag, reads it one code unit at
  a time. \<open>units\<close> gives the code units of an ASCII text and \<open>codeUnit\<close> that of one
  character.

  The regular expression is \<^verbatim>\<open>/\(?((?:file:\/\/)?\/[^\s):]+\.(?:ts|js|tsx|jsx))/\<close>. The
  functions below are its backtracking matcher, written out: \<open>pathTail\<close> is the greedy
  class \<^verbatim>\<open>[^\s):]+\<close> followed by the dot and the extension (the longest run is tried
  first, the alternatives of the extension in their written order), \<open>captureAt\<close> is the
  group, \<open>matchAt\<close> adds the optional parenthesis, and \<open>fileMatch\<close> tries the start
  positions from the left and gives the text of the group. The class \<^verbatim>\<open>\s\<close> is the
  white space and the line terminators of ECMAScript: U+0009 to U+000D, U+0020,
  U+00A0, U+1680, U+2000 to U+200A, U+2028, U+2029, U+202F, U+205F, U+3000 and U+FEFF.
\<close>

type_synonym code_unit = nat

abbreviation codeUnit :: "char \<Rightarrow> code_unit" where
  "codeUnit c \<equiv> of_char c"

definition units :: "string \<Rightarrow> code_unit list" where
  "units s = map codeUnit s"

definition isSpace :: "code_unit \<Rightarrow> bool" where
  "isSpace c =
     ((0x0009 \<le> c \<and> c \<le> 0x000D) \<or> (0x2000 \<le> c \<and> c \<le> 0x200A) \<or>
      c \<in> set [0x0020, 0x00A0, 0x1680, 0x2028, 0x2029, 0x202F, 0x205F, 0x3000, 0xFEFF])"

definition pathChar :: "code_unit \<Rightarrow> bool" where
  "pathChar c = (\<not> isSpace c \<and> c \<noteq> codeUnit CHR '')'' \<and> c \<noteq> codeUnit CHR '':'')"

definition extension :: "code_unit list \<Rightarrow> code_unit list option" where
  "extension s =
     (if startsWith s (units ''ts'') then Some (units ''ts'')
      else if startsWith s (units ''js'') then Some (units ''js'')
      else if startsWith s (units ''tsx'') then Some (units ''tsx'')
      else if startsWith s (units ''jsx'') then Some (units ''jsx'')
      else None)"

definition dotExtension :: "code_unit list \<Rightarrow> code_unit list option" where
  "dotExtension s =
     (case s of
        [] \<Rightarrow> None
      | d # rest \<Rightarrow> if d = codeUnit CHR ''.'' then map_option ((#) d) (extension rest) else None)"

fun pathTail :: "code_unit list \<Rightarrow> code_unit list option" where
  "pathTail [] = None"
| "pathTail (c # cs) =
     (if pathChar c then
        (case pathTail cs of
           Some r \<Rightarrow> Some (c # r)
         | None \<Rightarrow> map_option ((#) c) (dotExtension cs))
      else None)"

definition slashPath :: "code_unit list \<Rightarrow> code_unit list option" where
  "slashPath s =
     (case s of
        [] \<Rightarrow> None
      | c # cs \<Rightarrow> if c = codeUnit CHR ''/'' then map_option ((#) c) (pathTail cs) else None)"

definition captureAt :: "code_unit list \<Rightarrow> code_unit list option" where
  "captureAt s =
     (if startsWith s (units ''file://'') then
        (case slashPath (drop 7 s) of
           Some r \<Rightarrow> Some (units ''file://'' @ r)
         | None \<Rightarrow> slashPath s)
      else slashPath s)"

definition matchAt :: "code_unit list \<Rightarrow> code_unit list option" where
  "matchAt s =
     (if startsWith s (units ''('') then
        (case captureAt (drop 1 s) of
           Some r \<Rightarrow> Some r
         | None \<Rightarrow> captureAt s)
      else captureAt s)"

fun fileMatch :: "code_unit list \<Rightarrow> code_unit list option" where
  "fileMatch [] = matchAt []"
| "fileMatch (c # cs) =
     (case matchAt (c # cs) of
        Some r \<Rightarrow> Some r
      | None \<Rightarrow> fileMatch cs)"

text \<open>\<^verbatim>\<open>s.split("\n")\<close>.\<close>

fun split :: "'a \<Rightarrow> 'a list \<Rightarrow> 'a list list" where
  "split d [] = [ [] ]"
| "split d (c # cs) =
     (if c = d then [] # split d cs
      else (case split d cs of
              [] \<Rightarrow> [ [c] ]
            | l # ls \<Rightarrow> (c # l) # ls))"

text \<open>\<^verbatim>\<open>filePath.replace(/\\/g, "/")\<close>.\<close>

definition normalize :: "code_unit list \<Rightarrow> code_unit list" where
  "normalize filePath =
     map (\<lambda>c. if c = codeUnit CHR 0x5C then codeUnit CHR ''/'' else c) filePath"

definition isKatalistLibraryFile :: "code_unit list \<Rightarrow> bool" where
  "isKatalistLibraryFile normalizedPath =
     (includes_str normalizedPath (units ''/node_modules/katalist/'') \<or>
      endsWith normalizedPath (units ''/katalist/src/katalist.ts'') \<or>
      includes_str normalizedPath (units ''/katalist/dist/index.js'') \<or>
      includes_str normalizedPath (units ''/katalist/dist/index.cjs''))"

definition isInternalLibrary :: "code_unit list \<Rightarrow> bool" where
  "isInternalLibrary normalizedPath =
     (let isNodeModuleFile =
            (includes_str normalizedPath (units ''/node_modules/'') \<and>
             \<not> isKatalistLibraryFile normalizedPath)
      in isKatalistLibraryFile normalizedPath \<or> isNodeModuleFile \<or>
         includes_str normalizedPath (units ''ts-morph''))"

text \<open>
  The body of the loop for one line: the path the loop returns at this line, or \<open>None\<close>
  when it goes on to the next line.
\<close>

definition callerCandidate :: "code_unit list \<Rightarrow> code_unit list option" where
  "callerCandidate line =
     (case fileMatch line of
        None \<Rightarrow> None
      | Some m \<Rightarrow>
          (let filePath = (if startsWith m (units ''file://'') then drop 7 m else m) in
           if filePath = [] then None
           else if \<not> isInternalLibrary (normalize filePath) then Some filePath
           else None))"

fun scanLines :: "code_unit list list \<Rightarrow> code_unit list option" where
  "scanLines [] = None"
| "scanLines (line # rest) =
     (case callerCandidate line of
        Some filePath \<Rightarrow> Some filePath
      | None \<Rightarrow> scanLines rest)"

text \<open>
  The argument is \<^verbatim>\<open>new Error().stack\<close>: \<open>None\<close> when the engine gives no trace. An
  empty string is falsy and is treated the same way.
\<close>

definition getCallerFilePath :: "code_unit list option \<Rightarrow> code_unit list option" where
  "getCallerFilePath stack =
     (case stack of
        None \<Rightarrow> None
      | Some s \<Rightarrow> if s = [] then None else scanLines (split (codeUnit CHR 0x0A) s))"

section \<open>The client facade\<close>

text \<open>
  The options record of a verb. A field that JavaScript tests for truthiness is a
  boolean, or an optional string that counts as set when it is present and non-empty.
\<close>

record katalist_options =
  optGenerateSchema :: bool
  optInterfaceName :: "string option"
  optGenerateInputSchema :: bool
  optInputInterfaceName :: "string option"
  optSourceFile :: "string option"

definition truthy :: "string option \<Rightarrow> bool" where
  "truthy v = (case v of None \<Rightarrow> False | Some s \<Rightarrow> s \<noteq> [])"

text \<open>
  The collaborators are parameters: \<open>jsonToZodSchema\<close> is the synchronous synthesis, which
  may raise; \<open>transform\<close> is \<^verbatim>\<open>transformHttpClientCall(path, false)\<close>, which may raise; the
  response carries the outcome of \<^verbatim>\<open>await response.json()\<close>, which raises on a body that
  is not JSON. \<^verbatim>\<open>writeZodSchema\<close> is started and not awaited, so its outcome does not
  reach the hook. A raised exception is \<open>Inl\<close>.
\<close>

record http_response =
  responseStatus :: nat
  responseJson :: "error + json"

definition generateSchema :: "(json \<Rightarrow> string \<Rightarrow> error + string) \<Rightarrow> json \<Rightarrow> string \<Rightarrow> error + unit" where
  "generateSchema jsonToZodSchema data name =
     (case jsonToZodSchema data name of Inl e \<Rightarrow> Inl e | Inr zodSchema \<Rightarrow> Inr ())"

text \<open>
  \<^verbatim>\<open>if (options.sourceFile) { try { transform } catch { log } }\<close>: the result says
  whether the transform was attempted and, if so, whether it completed.
\<close>

definition tryTransform :: "(string \<Rightarrow> error + 'a) \<Rightarrow> string option \<Rightarrow> bool option" where
  "tryTransform transform path =
     (case path of
        None \<Rightarrow> None
      | Some p \<Rightarrow>
          if p = [] then None
          else (case transform p of Inl _ \<Rightarrow> Some False | Inr _ \<Rightarrow> Some True))"

definition typeofObject :: "json \<Rightarrow> bool" where
  "typeofObject j = (case j of JNull \<Rightarrow> True | JArray _ \<Rightarrow> True | JObject _ \<Rightarrow> True | _ \<Rightarrow> False)"

definition getAfterResponse ::
  "(json \<Rightarrow> string \<Rightarrow> error + string) \<Rightarrow> (string \<Rightarrow> error + 'a) \<Rightarrow> katalist_options \<Rightarrow>
   http_response \<Rightarrow> error + bool option" where
  "getAfterResponse jsonToZodSchema transform options response =
     (if optGenerateSchema options \<and> truthy (optInterfaceName options) then
        (case responseJson response of
           Inl e \<Rightarrow> Inl e
         | Inr data \<Rightarrow>
             (case data of
                JArray elems \<Rightarrow>
                  (if length elems > 0 \<and> typeofObject (elems ! 0) then
                     (case generateSchema jsonToZodSchema data (the (optInterfaceName options)) of
                        Inl e \<Rightarrow> Inl e
                      | Inr _ \<Rightarrow> Inr (tryTransform transform (optSourceFile options)))
                   else Inr None)
              | JObject _ \<Rightarrow>
                  (case generateSchema jsonToZodSchema data (the (optInterfaceName options)) of
                     Inl e \<Rightarrow> Inl e
                   | Inr _ \<Rightarrow> Inr (tryTransform transform (optSourceFile options)))
              | _ \<Rightarrow> Inr (tryTransform transform (optSourceFile options))))
      else Inr None)"

text \<open>The hook of \<open>post\<close>, \<open>put\<close> and \<open>delete\<close>, which is the same text in the three.\<close>

definition bodyAfterResponse ::
  "(json \<Rightarrow> string \<Rightarrow> error + string) \<Rightarrow> (string \<Rightarrow> error + 'a) \<Rightarrow> katalist_options \<Rightarrow>
   http_response \<Rightarrow> error + bool option" where
  "bodyAfterResponse jsonToZodSchema transform options response =
     (case (if optGenerateSchema options \<and> truthy (optInterfaceName options) then
              (case responseJson response of
                 Inl e \<Rightarrow> Inl e
               | Inr data \<Rightarrow>
                   (case data of
                      JObject _ \<Rightarrow>
                        generateSchema jsonToZodSchema data (the (optInterfaceName options))
                    | _ \<Rightarrow> Inr ()))
            else Inr ()) of
        Inl e \<Rightarrow> Inl e
      | Inr _ \<Rightarrow> Inr (tryTransform transform (optSourceFile options)))"

text \<open>
  The HTTP client (\<^verbatim>\<open>ky\<close>, with the options the facade passes) runs the hook on the
  response it received, whatever its status, and rejects the request when the hook
  raises. After the hook it rejects a response whose status is not in the range 200 to
  299 with an \<open>HTTPError\<close>; otherwise the caller gets the response. The options are the
  ones the hook reads, that is, after the verb has filled in a detected source file.
\<close>

datatype verb = GET | POST | PUT | DELETE

definition responseOk :: "http_response \<Rightarrow> bool" where
  "responseOk response = (200 \<le> responseStatus response \<and> responseStatus response \<le> 299)"

definition request ::
  "verb \<Rightarrow> (json \<Rightarrow> string \<Rightarrow> error + string) \<Rightarrow> (string \<Rightarrow> error + 'a) \<Rightarrow> katalist_options \<Rightarrow>
   http_response \<Rightarrow> error + http_response" where
  "request v jsonToZodSchema transform options response =
     (case (if v = GET then getAfterResponse jsonToZodSchema transform options response
            else bodyAfterResponse jsonToZodSchema transform options response) of
        Inl e \<Rightarrow> Inl e
      | Inr _ \<Rightarrow>
          if responseOk response then Inr response
          else Inl (HTTPError (responseStatus response)))"

section \<open>Predicates used in the statements\<close>

text \<open>How often a name occurs among the members of an object literal.\<close>

definition occurrences :: "string \<Rightarrow> property list \<Rightarrow> nat" where
  "occurrences n ps = length (filter (\<lambda>p. getName p = Some n) ps)"

text \<open>
  The members of an object literal without the first member named \<open>n\<close>, by recursion
  on the literal: the members before that one and the members after it, in their
  order. A literal without a member named \<open>n\<close> is returned as it is.
\<close>

fun removeFirst :: "string \<Rightarrow> property list \<Rightarrow> property list" where
  "removeFirst n [] = []"
| "removeFirst n (p # ps) = (if getName p = Some n then ps else p # removeFirst n ps)"

text \<open>
  The options literal of a call (its second argument) does not repeat both
  \<open>generateSchema\<close> and \<open>interfaceName\<close>; an object-literal argument of a constructor
  does not repeat \<open>zodOutput\<close>. TypeScript's checker rejects a literal that names a
  property twice; the parser accepts it.
\<close>

definition optionsOnce :: "call_expression \<Rightarrow> bool" where
  "optionsOnce c =
     (case callArguments c of
        _ # ObjectLiteralExpression ps # _ \<Rightarrow>
          occurrences ''generateSchema'' ps \<le> 1 \<or> occurrences ''interfaceName'' ps \<le> 1
      | _ \<Rightarrow> True)"

definition zodOutputOnce :: "expression \<Rightarrow> bool" where
  "zodOutputOnce arg =
     (case arg of
        ObjectLiteralExpression ps \<Rightarrow> occurrences ''zodOutput'' ps \<le> 1
      | _ \<Rightarrow> True)"

definition singleOptions :: "source_file \<Rightarrow> bool" where
  "singleOptions sourceFile =
     (list_all optionsOnce (callExpressions sourceFile) \<and>
      list_all (\<lambda>n. list_all zodOutputOnce (newArguments n)) (newExpressions sourceFile))"

text \<open>
  A text without an opening parenthesis holds no call and no constructor site. An
  expression is plain when no text in it has one; a named member that is not a
  property assignment may be a method, whose body is not recorded, and is not plain.
\<close>

fun plainExpression :: "expression \<Rightarrow> bool" and plainMember :: "property \<Rightarrow> bool" where
  "plainExpression (StringLiteral s) = (CHR ''('' \<notin> set s)"
| "plainExpression (ObjectLiteralExpression ps) = list_all plainMember ps"
| "plainExpression (OtherExpression t) = (CHR ''('' \<notin> set t)"
| "plainMember (PropertyAssignment n e) = (CHR ''('' \<notin> set n \<and> plainExpression e)"
| "plainMember (NamedMember n) = False"
| "plainMember (SpreadAssignment t) = (CHR ''('' \<notin> set t)"






text \<open>
  The binding a constructor site contributes when nothing filters it: it is bound by a
  variable declaration and its type name can be extracted.
\<close>

definition binding :: "new_expression \<Rightarrow> (string \<times> http_client_info) option" where
  "binding call =
     (case newAncestors call of
        VariableDeclaration variableName _ # up \<Rightarrow>
          (case extractTypeFromHttpClientArgs (newArguments call) of
             Some typeName \<Rightarrow>
               Some (variableName @ '':'' @ findContainingFunctionName up,
                     \<lparr>infoTypeName = typeName,
                      infoFunctionName = findContainingFunctionName up\<rparr>)
           | None \<Rightarrow> None)
      | _ \<Rightarrow> None)"

text \<open>
  The shape of a stack frame \<open>prefix path:line:column\<close>: the text before the path has no
  slash and no line break and ends with a parenthesis or a space (\<open>at load (\<close> or
  \<open>at \<close>), and the path is a slash, a non-empty run of code units of the class
  \<^verbatim>\<open>[^\s):]\<close>, a dot and an extension.
\<close>

definition framePrefix :: "code_unit list \<Rightarrow> bool" where
  "framePrefix p =
     (p \<noteq> [] \<and> last p \<in> {codeUnit CHR ''('', codeUnit CHR '' ''} \<and>
      codeUnit CHR ''/'' \<notin> set p \<and> codeUnit CHR 0x0A \<notin> set p)"

definition pathBody :: "code_unit list \<Rightarrow> bool" where
  "pathBody b = (b \<noteq> [] \<and> list_all pathChar b)"

section \<open>Example inputs\<close>

text \<open>
  A caller file with four call sites and two constructor sites:
  \<^verbatim>\<open>client.get(url, { generateSchema: true, interfaceName: "User" })\<close>,
  \<^verbatim>\<open>client.get(postUrl, { headers: { Accept: "application/json" }, generateSchema: true,
  interfaceName: "Post", sourceFile: "./api.ts" })\<close>,
  \<^verbatim>\<open>client.get(url, options)\<close>,
  \<^verbatim>\<open>client.delete(url, { generateSchema: true, interfaceName: "Removed" })\<close>,
  a constructor \<^verbatim>\<open>const http = new HttpClient({ zodOutput: { schemaName: "User" },
  forceFileTransform: true })\<close> inside \<^verbatim>\<open>function loadUsers\<close>, and a constructor
  \<^verbatim>\<open>const inner = new HttpClient({ zodOutput: { schemaName: "Post" } })\<close> inside an
  arrow function passed as a callback.
\<close>

definition exampleFile :: source_file where
  "exampleFile =
     \<lparr>importDeclarations =
        [\<lparr>moduleSpecifier = ''katalist'', namedImports = [''katalist''], isTypeOnly = False\<rparr>],
      callExpressions =
        [\<lparr>callExpression = PropertyAccessExpression ''client'' ''get'',
          callSpacing = [], callTypeArguments = [],
          callArguments =
            [OtherExpression ''url'',
             ObjectLiteralExpression
               [PropertyAssignment ''generateSchema'' (OtherExpression ''true''),
                PropertyAssignment ''interfaceName'' (StringLiteral ''User'')]]\<rparr>,
         \<lparr>callExpression = PropertyAccessExpression ''client'' ''get'',
          callSpacing = [], callTypeArguments = [],
          callArguments =
            [OtherExpression ''postUrl'',
             ObjectLiteralExpression
               [PropertyAssignment ''headers''
                  (ObjectLiteralExpression
                     [PropertyAssignment ''Accept'' (StringLiteral ''application/json'')]),
                PropertyAssignment ''generateSchema'' (OtherExpression ''true''),
                PropertyAssignment ''interfaceName'' (StringLiteral ''Post''),
                PropertyAssignment ''sourceFile'' (StringLiteral ''./api.ts'')]]\<rparr>,
         \<lparr>callExpression = PropertyAccessExpression ''client'' ''get'',
          callSpacing = [], callTypeArguments = [],
          callArguments = [OtherExpression ''url'', OtherExpression ''options'']\<rparr>,
         \<lparr>callExpression = PropertyAccessExpression ''client'' ''delete'',
          callSpacing = [], callTypeArguments = [],
          callArguments =
            [OtherExpression ''url'',
             ObjectLiteralExpression
               [PropertyAssignment ''generateSchema'' (OtherExpression ''true''),
                PropertyAssignment ''interfaceName'' (StringLiteral ''Removed'')]]\<rparr>],
      newExpressions =
        [\<lparr>newExpression = ''HttpClient'',
          newArguments =
            [ObjectLiteralExpression
               [PropertyAssignment ''zodOutput''
                  (ObjectLiteralExpression
                     [PropertyAssignment ''schemaName'' (StringLiteral ''User'')]),
                PropertyAssignment ''forceFileTransform'' (OtherExpression ''true'')]],
          newAncestors =
            [VariableDeclaration ''http'' False, OtherNode, OtherNode, OtherNode,
             FunctionDeclaration (Some ''loadUsers''), OtherNode]\<rparr>,
         \<lparr>newExpression = ''HttpClient'',
          newArguments =
            [ObjectLiteralExpression
               [PropertyAssignment ''zodOutput''
                  (ObjectLiteralExpression
                     [PropertyAssignment ''schemaName'' (StringLiteral ''Post'')])]],
          newAncestors =
            [VariableDeclaration ''inner'' False, OtherNode, OtherNode, OtherNode,
             ArrowFunction, OtherNode, OtherNode, OtherNode]\<rparr>]\<rparr>"



text \<open>
  The tree inferred for the JSON array \<^verbatim>\<open>[{"id": 1, "user": {"name": "Ann"}}]\<close>, and the
  tree inferred for its element \<^verbatim>\<open>{"id": 1, "user": {"name": "Ann"}}\<close> alone.
\<close>

definition numberSchema :: json_schema where
  "numberSchema = JsonSchema (Some ''number'') None None None None None"

definition stringSchema :: json_schema where
  "stringSchema = JsonSchema (Some ''string'') None None None None None"

definition inferredObject :: json_schema where
  "inferredObject =
     JsonSchema (Some ''object'')
       (Some [(''id'', numberSchema),
              (''user'', JsonSchema (Some ''object'') (Some [(''name'', stringSchema)])
                           None None None None)])
       None None None (Some ''http://json-schema.org/draft-04/schema#'')"

definition inferredArray :: json_schema where
  "inferredArray =
     JsonSchema (Some ''array'') None None
       (Some (JsonSchema (Some ''object'')
          (Some [(''id'', numberSchema),
                 (''user'', JsonSchema (Some ''object'') (Some [(''name'', stringSchema)])
                              None None None None)])
          None None None None))
       None (Some ''http://json-schema.org/draft-04/schema#'')"

text \<open>
  Two stack traces with a library frame followed by a user frame; in the second the
  path of the user frame has backslashes.
\<close>

definition exampleStack :: string where
  "exampleStack =
     ''Error'' @ [CHR 0x0A] @
     ''    at get (/app/node_modules/katalist/dist/index.js:120:15)'' @ [CHR 0x0A] @
     ''    at loadUser (file:///home/dev/shop/src/api.ts:7:27)'' @ [CHR 0x0A] @
     ''    at main (/home/dev/shop/src/index.ts:3:1)''"

definition backslashStack :: string where
  "backslashStack =
     ''Error'' @ [CHR 0x0A] @
     ''    at get (/app/node_modules/katalist/dist/index.js:120:15)'' @ [CHR 0x0A] @
     ''    at loadUser (/home/dev/shop'' @ [CHR 0x5C] @ ''src'' @ [CHR 0x5C] @ ''api.ts:7:27)''"

definition exampleOptions :: katalist_options where
  "exampleOptions =
     \<lparr>optGenerateSchema = True, optInterfaceName = Some ''User'',
      optGenerateInputSchema = False, optInputInterfaceName = None,
      optSourceFile = Some ''/home/dev/shop/src/api.ts''\<rparr>"



text \<open>
  A file whose only statement is
  \<^verbatim>\<open>registry.get(key, opts).get(url, { generateSchema: true, interfaceName: "User" })\<close>.
  It has two call sites: the tagged call, whose receiver is the text
  \<^verbatim>\<open>registry.get(key, opts)\<close>, and inside it that call of \<open>get\<close>, whose second
  argument is an identifier. The text of the statement follows.
\<close>

definition chainedFile :: source_file where
  "chainedFile =
     \<lparr>importDeclarations = [],
      callExpressions =
        [\<lparr>callExpression = PropertyAccessExpression ''registry.get(key, opts)'' ''get'',
          callSpacing = [], callTypeArguments = [],
          callArguments =
            [OtherExpression ''url'',
             ObjectLiteralExpression
               [PropertyAssignment ''generateSchema'' (OtherExpression ''true''),
                PropertyAssignment ''interfaceName'' (StringLiteral ''User'')]]\<rparr>,
         \<lparr>callExpression = PropertyAccessExpression ''registry'' ''get'',
          callSpacing = [], callTypeArguments = [],
          callArguments = [OtherExpression ''key'', OtherExpression ''opts'']\<rparr>],
      newExpressions = []\<rparr>"

definition chainedCallText :: string where
  "chainedCallText =
     ''registry.get(key, opts).get(url, { generateSchema: true, interfaceName: '' @
     [CHR 0x22] @ ''User'' @ [CHR 0x22] @ '' })''"

section \<open>Properties of the string operations\<close>

lemma startsWith_Nil [simp]: "startsWith s []"
  by (simp add: startsWith_def)

lemma startsWith_Cons_Cons [simp]:
  "startsWith (c # cs) (d # ds) = (c = d \<and> startsWith cs ds)"
  by (auto simp: startsWith_def)

lemma startsWith_Nil_Cons [simp]: "\<not> startsWith [] (d # ds)"
  by (simp add: startsWith_def)

lemma startsWith_set: "startsWith s p \<Longrightarrow> set p \<subseteq> set s"
  unfolding startsWith_def by (metis set_take_subset)

lemma startsWith_length: "startsWith s p \<Longrightarrow> length p \<le> length s"
proof -
  assume "startsWith s p"
  then have "length (take (length p) s) = length p" by (simp add: startsWith_def)
  then show ?thesis by simp
qed

lemma drop_within: "n \<le> length a \<Longrightarrow> drop n (a @ b) = drop n a @ b"
  by simp

lemma startsWith_append: "startsWith a p \<Longrightarrow> startsWith (a @ b) p"
proof -
  assume s: "startsWith a p"
  then have "length p \<le> length a" by (rule startsWith_length)
  with s show ?thesis by (simp add: startsWith_def)
qed

lemma startsWith_within:
  "startsWith (a @ b) p \<Longrightarrow> length p \<le> length a \<Longrightarrow> startsWith a p"
  by (simp add: startsWith_def)

lemma includes_str_length: "includes_str a p \<Longrightarrow> length p \<le> length a"
  by (induction a) (auto dest: startsWith_length)

text \<open>
  Replacing in a longer text: when the pattern occurs in the first part, the leftmost
  occurrence of the whole text is the leftmost occurrence of that part.
\<close>

lemma replace_in_first_part:
  "includes_str a pat \<Longrightarrow> replace (a @ b) pat rep = replace a pat rep @ b"
proof (induction a)
  case Nil
  then show ?case by (cases b) simp_all
next
  case (Cons c cs)
  show ?case
  proof (cases "startsWith (c # cs) pat")
    case True
    then have s: "startsWith ((c # cs) @ b) pat" by (rule startsWith_append)
    from True have "length pat \<le> length (c # cs)" by (rule startsWith_length)
    then have "drop (length pat) ((c # cs) @ b) = drop (length pat) (c # cs) @ b"
      by (rule drop_within)
    with s True show ?thesis by (simp del: startsWith_Cons_Cons)
  next
    case False
    with Cons.prems have i: "includes_str cs pat" by simp
    then have "length pat \<le> length (c # cs)" by (auto dest: includes_str_length)
    with False have "\<not> startsWith ((c # cs) @ b) pat"
      using startsWith_within [of "c # cs" b pat] by blast
    with False i Cons.IH show ?thesis by (simp del: startsWith_Cons_Cons)
  qed
qed

lemma startsWith_short_blocked:
  "d \<notin> set pat \<Longrightarrow> length q < length pat \<Longrightarrow> \<not> startsWith (q @ d # s) pat"
proof (induction q arbitrary: pat)
  case Nil
  then show ?case by (cases pat) auto
next
  case (Cons c q)
  then show ?case by (cases pat) auto
qed

text \<open>
  The text of a call \<open>object.get(rest\<close>: when \<open>object\<close> does not contain \<open>.get(\<close>, the
  leftmost occurrence is the call's own, since no occurrence can begin inside \<open>object\<close>
  and end in the call's \<open>.get(\<close>.
\<close>

lemma replace_own_get:
  "\<not> includes_str object ''.get('' \<Longrightarrow>
   replace (object @ ''.get('' @ rest) ''.get('' rep = object @ rep @ rest"
proof (induction object)
  case Nil
  then show ?case by simp
next
  case (Cons c cs)
  then have n: "\<not> startsWith (c # cs) ''.get(''" and i: "\<not> includes_str cs ''.get(''"
    by simp_all
  have "\<not> startsWith (c # cs @ ''.get('' @ rest) ''.get(''"
  proof
    assume s: "startsWith (c # cs @ ''.get('' @ rest) ''.get(''"
    show False
    proof (cases "length cs < 4")
      case True
      then have "\<not> startsWith (cs @ CHR ''.'' # ''get('' @ rest) ''get(''"
        by (intro startsWith_short_blocked) simp_all
      with s show False by simp
    next
      case False
      then have "length ''.get('' \<le> length (c # cs)" by simp
      with s have "startsWith (c # cs) ''.get(''"
        using startsWith_within [of "c # cs" "''.get('' @ rest" "''.get(''"]
        by (simp del: startsWith_Cons_Cons)
      with n show False by contradiction
    qed
  qed
  with Cons.IH [OF i] show ?case by (simp del: startsWith_Cons_Cons)
qed

text \<open>
  The two cases of \<open>replaceWithText\<close> are the two cases of the textual replacement on
  the text of the call.
\<close>

lemma replace_in_call_text:
  "replace (object @ ''.get('' @ rest) ''.get('' (''.get<'' @ typeName @ ''>('') =
     (if includes_str object ''.get(''
      then replace object ''.get('' (''.get<'' @ typeName @ ''>('') @ ''.get('' @ rest
      else object @ ''.get<'' @ typeName @ ''>('' @ rest)"
proof (cases "includes_str object ''.get(''")
  case True
  then show ?thesis by (simp only: if_True replace_in_first_part [OF True])
next
  case False
  then show ?thesis by (simp only: if_False replace_own_get [OF False] append_assoc)
qed

section \<open>Properties of object literals\<close>

lemma getProperty_None_iff: "getProperty ps n = None \<longleftrightarrow> (\<forall>p \<in> set ps. getName p \<noteq> Some n)"
  by (auto simp: getProperty_def find_None_iff)


lemma getProperty_remove_None:
  "getProperty ps n = None \<Longrightarrow> getProperty (remove x ps) n = None"
  by (cases x) (auto simp: getProperty_None_iff dest: notin_set_remove1)

lemma find_remove1_once:
  "find P ps = Some x \<Longrightarrow> length (filter P ps) \<le> 1 \<Longrightarrow> find P (remove1 x ps) = None"
proof (induction ps)
  case Nil
  then show ?case by simp
next
  case (Cons a as)
  show ?case
  proof (cases "P a")
    case True
    with Cons.prems have "x = a" and "filter P as = []" by auto
    then show ?thesis by (simp add: find_None_iff filter_empty_conv)
  next
    case False
    with Cons.prems have f: "find P as = Some x" and l: "length (filter P as) \<le> 1" by auto
    from f have "P x" by (auto simp: find_Some_iff)
    with False have "x \<noteq> a" by auto
    with False Cons.IH [OF f l] show ?thesis by simp
  qed
qed

lemma getProperty_remove_once:
  "occurrences n ps \<le> 1 \<Longrightarrow> getProperty (remove (getProperty ps n) ps) n = None"
  by (cases "getProperty ps n")
     (auto simp: getProperty_def occurrences_def find_remove1_once)

lemma remove_commute: "remove x (remove y ps) = remove y (remove x ps)"
  by (cases x; cases y) (auto simp: remove1_commute)





lemma removeFirst_position:
  "\<forall>p \<in> set before. getName p \<noteq> Some n \<Longrightarrow> getName q = Some n \<Longrightarrow>
   removeFirst n (before @ q # after) = before @ after"
  by (induction before) auto



subsection \<open>The three generation options\<close>

lemma removeOptions_interfaceName_first:
  "removeOptions ps =
     remove (getProperty ps ''sourceFile'') (remove (getProperty ps ''generateSchema'')
       (remove (getProperty ps ''interfaceName'') ps))"
  by (simp add: removeOptions_def Let_def remove_commute)


lemma removeOptions_generateSchema:
  "occurrences ''generateSchema'' ps \<le> 1 \<Longrightarrow>
   getProperty (removeOptions ps) ''generateSchema'' = None"
  by (simp add: removeOptions_def Let_def getProperty_remove_None getProperty_remove_once)

lemma removeOptions_interfaceName:
  "occurrences ''interfaceName'' ps \<le> 1 \<Longrightarrow>
   getProperty (removeOptions ps) ''interfaceName'' = None"
  unfolding removeOptions_interfaceName_first
  by (simp add: getProperty_remove_None getProperty_remove_once)




section \<open>Properties of the passes\<close>

lemma addTypeParameter_arguments [simp]:
  "callArguments (addTypeParameter c) = callArguments c"
  by (auto simp: addTypeParameter_def replaceWithText_def
      split: callee_expression.splits expression.splits option.splits property.splits)

lemma katalist_addTypeParameter [simp]:
  "katalistCallWithSchemaGeneration (addTypeParameter c) = katalistCallWithSchemaGeneration c"
  by (auto simp: katalistCallWithSchemaGeneration_def addTypeParameter_def replaceWithText_def
      split: callee_expression.splits expression.splits option.splits property.splits)

lemma calls_applyPasses:
  "callExpressions (applyPasses base sf) =
     map (\<lambda>c. if katalistCallWithSchemaGeneration c then removeCallOptions (addTypeParameter c) else c)
       (callExpressions sf)"
  by (simp add: applyPasses_def removeSchemaGenerationOptions_def removeZodOutput_def
      addKatalistSchemaImports_def addTypeParametersToKatalistCalls_def o_def cong: if_cong)

lemma news_applyPasses:
  "newExpressions (applyPasses base sf) =
     map (\<lambda>n. if httpClientWithZodOutput n
              then n\<lparr>newArguments := map removeZodOutputArgument (newArguments n)\<rparr> else n)
       (newExpressions sf)"
  by (simp add: applyPasses_def removeSchemaGenerationOptions_def removeZodOutput_def
      addKatalistSchemaImports_def addTypeParametersToKatalistCalls_def)

lemma imports_applyPasses:
  "importDeclarations (applyPasses base sf) =
     addImports base (importDeclarations sf)
       (filter katalistCallWithSchemaGeneration
          (map (\<lambda>c. if katalistCallWithSchemaGeneration c then addTypeParameter c else c)
             (callExpressions sf)))
       (importDeclarations sf)"
  by (simp add: applyPasses_def removeSchemaGenerationOptions_def removeZodOutput_def
      addKatalistSchemaImports_def addTypeParametersToKatalistCalls_def
      findKatalistCallsWithSchemaGeneration_def)

lemma more_applyPasses: "source_file.more (applyPasses base sf) = source_file.more sf"
  by (simp add: applyPasses_def removeSchemaGenerationOptions_def removeZodOutput_def
      addKatalistSchemaImports_def addTypeParametersToKatalistCalls_def)

lemma untouched_site:
  assumes "i < length (callExpressions sf)"
    and "\<not> katalistCallWithSchemaGeneration (callExpressions sf ! i)"
  shows "callExpressions (addTypeParametersToKatalistCalls sf) ! i = callExpressions sf ! i"
    and "callExpressions (addKatalistSchemaImports base sf) ! i = callExpressions sf ! i"
    and "callExpressions (removeZodOutput sf) ! i = callExpressions sf ! i"
    and "callExpressions (removeSchemaGenerationOptions sf) ! i = callExpressions sf ! i"
    and "callExpressions (applyPasses base sf) ! i = callExpressions sf ! i"
  using assms
  by (simp_all add: calls_applyPasses addTypeParametersToKatalistCalls_def
      addKatalistSchemaImports_def removeZodOutput_def removeSchemaGenerationOptions_def)

subsection \<open>A second run finds nothing to do\<close>

lemma not_katalist_after_strip:
  assumes "optionsOnce c" and "katalistCallWithSchemaGeneration c"
  shows "\<not> katalistCallWithSchemaGeneration (removeCallOptions (addTypeParameter c))"
proof -
  from assms(2) obtain a ps rest where args: "callArguments c = a # ObjectLiteralExpression ps # rest"
    by (cases "callArguments c"; cases "tl (callArguments c)")
       (auto simp: katalistCallWithSchemaGeneration_def
         split: callee_expression.splits expression.splits if_splits)
  with assms(1) have
    "occurrences ''generateSchema'' ps \<le> 1 \<or> occurrences ''interfaceName'' ps \<le> 1"
    by (simp add: optionsOnce_def)
  then have "getProperty (removeOptions ps) ''generateSchema'' = None \<or>
      getProperty (removeOptions ps) ''interfaceName'' = None"
  proof
    assume "occurrences ''generateSchema'' ps \<le> 1"
    then show ?thesis by (rule removeOptions_generateSchema [THEN disjI1])
  next
    assume "occurrences ''interfaceName'' ps \<le> 1"
    then show ?thesis by (rule removeOptions_interfaceName [THEN disjI2])
  qed
  with args show ?thesis
    by (auto simp: katalistCallWithSchemaGeneration_def removeCallOptions_def
        split: callee_expression.splits)
qed

lemma zodOutput_removed:
  assumes "zodOutputOnce arg"
  shows "\<not> isZodOutputArgument (removeZodOutputArgument arg)"
proof (cases arg)
  case (ObjectLiteralExpression ps)
  with assms have once: "occurrences ''zodOutput'' ps \<le> 1" by (simp add: zodOutputOnce_def)
  show ?thesis
  proof (cases "getProperty ps ''zodOutput''")
    case None
    with ObjectLiteralExpression show ?thesis
      by (simp add: removeZodOutputArgument_def isZodOutputArgument_def)
  next
    case (Some z)
    have "getProperty (remove (getProperty ps ''forceFileTransform'')
        (remove (getProperty ps ''zodOutput'') ps)) ''zodOutput'' = None"
      using once by (simp add: getProperty_remove_None getProperty_remove_once)
    with ObjectLiteralExpression Some show ?thesis
      by (simp add: removeZodOutputArgument_def isZodOutputArgument_def Let_def)
  qed
qed (simp_all add: removeZodOutputArgument_def isZodOutputArgument_def)

lemma not_httpClient_after_removal:
  assumes "list_all zodOutputOnce (newArguments n)"
  shows "\<not> httpClientWithZodOutput (n\<lparr>newArguments := map removeZodOutputArgument (newArguments n)\<rparr>)"
  using assms zodOutput_removed
  by (auto simp: httpClientWithZodOutput_def list_ex_iff list_all_iff)

lemma applyPasses_no_katalist:
  assumes "singleOptions sf"
  shows "\<forall>c \<in> set (callExpressions (applyPasses base sf)). \<not> katalistCallWithSchemaGeneration c"
  using assms not_katalist_after_strip
  by (auto simp: calls_applyPasses singleOptions_def list_all_iff)

lemma applyPasses_no_httpClient:
  assumes "singleOptions sf"
  shows "\<forall>n \<in> set (newExpressions (applyPasses base sf)). \<not> httpClientWithZodOutput n"
  using assms not_httpClient_after_removal
  by (auto simp: news_applyPasses singleOptions_def list_all_iff)

lemma applyPasses_fixpoint:
  assumes "\<forall>c \<in> set (callExpressions sf). \<not> katalistCallWithSchemaGeneration c"
    and "\<forall>n \<in> set (newExpressions sf). \<not> httpClientWithZodOutput n"
  shows "applyPasses base sf = sf"
proof -
  have c: "callExpressions (applyPasses base sf) = callExpressions sf"
    using assms(1) by (simp add: calls_applyPasses map_idI)
  have n: "newExpressions (applyPasses base sf) = newExpressions sf"
    using assms(2) by (simp add: news_applyPasses map_idI)
  have "filter katalistCallWithSchemaGeneration
          (map (\<lambda>c. if katalistCallWithSchemaGeneration c then addTypeParameter c else c)
             (callExpressions sf)) = []"
    using assms(1) by (auto simp: filter_empty_conv)
  then have i: "importDeclarations (applyPasses base sf) = importDeclarations sf"
    by (simp add: imports_applyPasses)
  from c n i more_applyPasses [of base sf] show ?thesis
    by (simp add: source_file.equality)
qed

lemma applyPasses_idempotent:
  "singleOptions sf \<Longrightarrow> applyPasses base' (applyPasses base sf) = applyPasses base sf"
  by (rule applyPasses_fixpoint) (simp_all add: applyPasses_no_katalist applyPasses_no_httpClient)

lemmas pass_defs =
  transformHttpClientCall_def transformedPath_def calculateHttpSchemasPath_def applyPasses_def
  removeSchemaGenerationOptions_def removeCallOptions_def removeOptions_def
  removeZodOutput_def removeZodOutputArgument_def addKatalistSchemaImports_def hasImport_def
  addTypeParametersToKatalistCalls_def addTypeParameter_def replaceWithText_def
  findKatalistCallsWithSchemaGeneration_def katalistCallWithSchemaGeneration_def
  findHttpClientCallsWithZodOutput_def httpClientWithZodOutput_def isZodOutputArgument_def
  getProperty_def Let_def







subsection \<open>The imports a run adds\<close>









subsection \<open>Generation-option stripping\<close>




subsection \<open>Sites the passes leave alone\<close>

lemma not_katalist_other_method:
  "callExpression c = PropertyAccessExpression object name \<Longrightarrow> name \<noteq> ''get'' \<Longrightarrow>
   \<not> katalistCallWithSchemaGeneration c"
  by (simp add: katalistCallWithSchemaGeneration_def)

text \<open>
  C9. A call site whose second argument is not an object literal is not left
  unmodified when a tagged call is chained on it. In
  \<^verbatim>\<open>registry.get(key, opts).get(url, { generateSchema: true, interfaceName: "User" })\<close>
  the locator returns the outer call only. The first pass takes the text of that call
  and replaces the leftmost \<open>.get(\<close>, which is the one of the inner call
  \<^verbatim>\<open>registry.get(key, opts)\<close>: the text of the inner call, whose second argument is the
  identifier \<open>opts\<close>, becomes \<^verbatim>\<open>registry.get<UserSchemaType>(key, opts)\<close>. The tagged
  call itself gets no type argument, so the run adds no import, and its options are
  stripped. In the model the rewritten text of the inner call is the receiver of the
  tagged call.
\<close>

theorem chained_get_receiver_rewritten:
  "callExpression (callExpressions chainedFile ! 1) = PropertyAccessExpression ''registry'' ''get'' \<and>
   callArguments (callExpressions chainedFile ! 1) =
     [OtherExpression ''key'', OtherExpression ''opts''] \<and>
   findKatalistCallsWithSchemaGeneration chainedFile = [callExpressions chainedFile ! 0] \<and>
   replace chainedCallText ''.get('' (''.get<'' @ ''User'' @ ''SchemaType'' @ ''>('') =
     ''registry.get<UserSchemaType>(key, opts).get(url, '' @
     ''{ generateSchema: true, interfaceName: '' @ [CHR 0x22] @ ''User'' @ [CHR 0x22] @ '' })'' \<and>
   callExpressions (addTypeParametersToKatalistCalls chainedFile) ! 0 =
     \<lparr>callExpression =
        PropertyAccessExpression ''registry.get<UserSchemaType>(key, opts)'' ''get'',
      callSpacing = [], callTypeArguments = [],
      callArguments =
        [OtherExpression ''url'',
         ObjectLiteralExpression
           [PropertyAssignment ''generateSchema'' (OtherExpression ''true''),
            PropertyAssignment ''interfaceName'' (StringLiteral ''User'')]]\<rparr> \<and>
   callExpressions (applyPasses ''./http-schemas'' chainedFile) ! 0 =
     \<lparr>callExpression =
        PropertyAccessExpression ''registry.get<UserSchemaType>(key, opts)'' ''get'',
      callSpacing = [], callTypeArguments = [],
      callArguments = [OtherExpression ''url'', ObjectLiteralExpression []]\<rparr> \<and>
   importDeclarations (applyPasses ''./http-schemas'' chainedFile) = []"
  by (simp add: pass_defs chainedFile_def chainedCallText_def)

text \<open>
  C10. The katalist passes match only property-access calls whose method name is
  exactly \<open>get\<close>. A call site with any other method name (\<open>post\<close>, \<open>put\<close>, \<open>delete\<close>),
  whatever its options, is given no type parameter and keeps its options in every
  pass and in the whole run, and it triggers no import: the import declarations of
  the result are those of the run on the file without that site.
\<close>

theorem only_get_calls_are_rewritten:
  assumes "i < length (callExpressions sourceFile)"
    and "callExpression (callExpressions sourceFile ! i) = PropertyAccessExpression object name"
    and "name \<noteq> ''get''"
  shows "callExpressions (addTypeParametersToKatalistCalls sourceFile) ! i =
            callExpressions sourceFile ! i \<and>
         callExpressions (removeSchemaGenerationOptions sourceFile) ! i =
            callExpressions sourceFile ! i \<and>
         callExpressions (applyPasses base sourceFile) ! i = callExpressions sourceFile ! i \<and>
         importDeclarations (applyPasses base sourceFile) =
           importDeclarations (applyPasses base
             (sourceFile\<lparr>callExpressions :=
                take i (callExpressions sourceFile) @ drop (Suc i) (callExpressions sourceFile)\<rparr>))"
proof -
  let ?cs = "callExpressions sourceFile"
  have nk: "\<not> katalistCallWithSchemaGeneration (?cs ! i)"
    using assms(2,3) by (rule not_katalist_other_method)
  note u = untouched_site [OF assms(1) nk]
  have split: "?cs = take i ?cs @ ?cs ! i # drop (Suc i) ?cs"
    using assms(1) by (rule id_take_nth_drop)
  let ?f = "\<lambda>c. if katalistCallWithSchemaGeneration c then addTypeParameter c else c"
  have "filter katalistCallWithSchemaGeneration (map ?f ?cs) =
      filter katalistCallWithSchemaGeneration
        (map ?f (take i ?cs @ ?cs ! i # drop (Suc i) ?cs))"
    using split by simp
  also have "\<dots> = filter katalistCallWithSchemaGeneration
        (map ?f (take i ?cs @ drop (Suc i) ?cs))"
    using nk by simp
  finally have "importDeclarations (applyPasses base sourceFile) =
           importDeclarations (applyPasses base
             (sourceFile\<lparr>callExpressions := take i ?cs @ drop (Suc i) ?cs\<rparr>))"
    by (simp add: imports_applyPasses)
  with u(1,4,5) show ?thesis by blast
qed

text \<open>
  The theorem at the fourth call of the example file,
  \<^verbatim>\<open>client.delete(url, { generateSchema: true, interfaceName: "Removed" })\<close>: the call is
  unchanged and the run imports \<open>UserSchemaType\<close> and \<open>PostSchemaType\<close> only.
\<close>

theorem only_get_calls_are_rewritten_witness:
  "callExpression (callExpressions exampleFile ! 3) = PropertyAccessExpression ''client'' ''delete'' \<and>
   callExpressions (addTypeParametersToKatalistCalls exampleFile) ! 3 =
     callExpressions exampleFile ! 3 \<and>
   callExpressions (removeSchemaGenerationOptions exampleFile) ! 3 =
     callExpressions exampleFile ! 3 \<and>
   callExpressions (applyPasses ''../http-schemas'' exampleFile) ! 3 =
     \<lparr>callExpression = PropertyAccessExpression ''client'' ''delete'',
      callSpacing = [], callTypeArguments = [],
      callArguments =
        [OtherExpression ''url'',
         ObjectLiteralExpression
           [PropertyAssignment ''generateSchema'' (OtherExpression ''true''),
            PropertyAssignment ''interfaceName'' (StringLiteral ''Removed'')]]\<rparr> \<and>
   map namedImports (importDeclarations (applyPasses ''../http-schemas'' exampleFile)) =
     [ [''katalist''], [''UserSchemaType''], [''PostSchemaType''] ]"
proof -
  have l: "3 < length (callExpressions exampleFile)" by (simp add: exampleFile_def)
  have c: "callExpression (callExpressions exampleFile ! 3) =
      PropertyAccessExpression ''client'' ''delete''"
    by (simp add: exampleFile_def)
  have n: "''delete'' \<noteq> ''get''" by simp
  have e: "callExpressions exampleFile ! 3 =
     \<lparr>callExpression = PropertyAccessExpression ''client'' ''delete'',
      callSpacing = [], callTypeArguments = [],
      callArguments =
        [OtherExpression ''url'',
         ObjectLiteralExpression
           [PropertyAssignment ''generateSchema'' (OtherExpression ''true''),
            PropertyAssignment ''interfaceName'' (StringLiteral ''Removed'')]]\<rparr>"
    by (simp add: exampleFile_def)
  have i: "map namedImports (importDeclarations (applyPasses ''../http-schemas''
      (exampleFile\<lparr>callExpressions :=
         take 3 (callExpressions exampleFile) @ drop (Suc 3) (callExpressions exampleFile)\<rparr>))) =
     [ [''katalist''], [''UserSchemaType''], [''PostSchemaType''] ]"
    by (simp add: pass_defs exampleFile_def)
  from only_get_calls_are_rewritten [OF l c n, of "''../http-schemas''"] c e i
  show ?thesis by simp
qed

section \<open>The output path of a run\<close>

text \<open>
  C7. With the write-new-file flag set, the run writes to
  \<^verbatim>\<open>sourceFilePath.replace(".ts", ".transformed.ts")\<close>, which rewrites the leftmost
  \<open>.ts\<close> of the whole path. For \<open>/proj/my.tsfiles/api.ts\<close> the marker lands in the
  directory name and not before the extension; for \<open>/proj/src/api.js\<close> the path has no
  \<open>.ts\<close>, the output path is the source path, and the run overwrites the original.
\<close>

theorem transformedPath_leftmost_ts:
  "transformHttpClientCall formatWithBiome joinRelative
     [''/proj/my.tsfiles/api.ts'' \<mapsto> sourceFile] ''/proj/my.tsfiles/api.ts'' True =
   Inr ([''/proj/my.tsfiles/api.ts'' \<mapsto> sourceFile,
         ''/proj/my.transformed.tsfiles/api.ts'' \<mapsto>
           formatWithBiome
             (applyPasses (calculateHttpSchemasPath (joinRelative ''/proj/my.tsfiles/api.ts''))
                sourceFile)],
        formatWithBiome
          (applyPasses (calculateHttpSchemasPath (joinRelative ''/proj/my.tsfiles/api.ts''))
             sourceFile)) \<and>
   transformHttpClientCall formatWithBiome joinRelative
     [''/proj/src/api.js'' \<mapsto> sourceFile] ''/proj/src/api.js'' True =
   Inr ([''/proj/src/api.js'' \<mapsto>
          formatWithBiome
            (applyPasses (calculateHttpSchemasPath (joinRelative ''/proj/src/api.js''))
               sourceFile)],
        formatWithBiome
          (applyPasses (calculateHttpSchemasPath (joinRelative ''/proj/src/api.js''))
             sourceFile))"
  by (simp add: transformHttpClientCall_def transformedPath_def Let_def)

section \<open>The function-name filter of the variable correlation\<close>

lemma update_member:
  "(k', v') \<in> set (AList.update k v al) \<Longrightarrow> (k', v') = (k, v) \<or> (k', v') \<in> set al"
  by (induction al) (auto split: if_splits)

lemma extractLoop_names:
  assumes "names \<noteq> []" and "''<anonymous>'' \<notin> set names"
  shows "\<forall>(key, info) \<in> set m. infoFunctionName info \<in> set names \<Longrightarrow>
    \<forall>(key, info) \<in> set (extractLoop (Some names) sites m b). infoFunctionName info \<in> set names"
proof (induction sites arbitrary: m b)
  case Nil
  then show ?case by simp
next
  case (Cons call rest)
  show ?case
  proof (cases "newAncestors call")
    case Nil
    with Cons show ?thesis by simp
  next
    case (Cons parent up)
    note anc = this
    show ?thesis
    proof (cases parent)
      case (VariableDeclaration variableName fi)
      show ?thesis
      proof (cases "findContainingFunctionName up \<in> set names")
        case False
        with anc VariableDeclaration assms Cons.IH [OF Cons.prems] show ?thesis
          by (simp add: Let_def)
      next
        case True
        show ?thesis
        proof (cases "extractTypeFromHttpClientArgs (newArguments call)")
          case None
          with anc VariableDeclaration assms True Cons.IH [OF Cons.prems] show ?thesis
            by (simp add: Let_def)
        next
          case (Some typeName)
          let ?m = "AList.update (variableName @ '':'' @ findContainingFunctionName up)
              \<lparr>infoTypeName = typeName, infoFunctionName = findContainingFunctionName up\<rparr> m"
          have "\<forall>(key, info) \<in> set ?m. infoFunctionName info \<in> set names"
            using Cons.prems True by (auto dest!: update_member)
          then have "\<forall>(key, info) \<in> set (extractLoop (Some names) rest ?m True).
              infoFunctionName info \<in> set names"
            by (rule Cons.IH)
          with anc VariableDeclaration assms True Some show ?thesis
            by (simp add: Let_def)
        qed
      qed
    qed (use anc Cons.IH [OF Cons.prems] in simp_all)
  qed
qed

lemma extractLoop_done:
  "''<anonymous>'' \<in> set names \<Longrightarrow> extractLoop (Some names) sites m True = m"
proof (induction sites)
  case Nil
  then show ?case by simp
next
  case (Cons call rest)
  then show ?case
    by (simp add: Let_def split: list.splits node.splits)
qed

lemma extractLoop_first:
  assumes "''<anonymous>'' \<in> set names"
  shows "extractLoop (Some names) sites [] False = take 1 (List.map_filter binding sites)"
proof (induction sites)
  case Nil
  then show ?case by (simp add: map_filter_simps)
next
  case (Cons call rest)
  show ?case
  proof (cases "binding call")
    case None
    then have "extractLoop (Some names) (call # rest) [] False =
        extractLoop (Some names) rest [] False"
      using assms
      by (auto simp: binding_def Let_def split: list.splits node.splits option.splits)
    with None Cons show ?thesis by (simp add: map_filter_simps)
  next
    case (Some b)
    then have "extractLoop (Some names) (call # rest) [] False =
        extractLoop (Some names) rest [b] True"
      using assms
      by (auto simp: binding_def Let_def split: list.splits node.splits option.splits)
    with Some assms show ?thesis by (simp add: map_filter_simps extractLoop_done)
  qed
qed

lemmas correlation_defs =
  extractHttpClientVariablesWithZodOutput_def findHttpClientCallsWithZodOutput_def
  httpClientWithZodOutput_def isZodOutputArgument_def extractSchemaNameFromZodOutput_def
  isFunctionVariableDeclaration_def orAnonymous_def getProperty_def binding_def Let_def

text \<open>
  C6. For every source file and every non-empty function-name filter that does
  not contain \<open><anonymous>\<close>, the returned binding map contains only bindings whose
  containing-function name is in the filter. When the filter contains \<open><anonymous>\<close>, no
  binding is filtered by its function name, and the map holds at most one binding: the
  first one in source order whose type name can be extracted, whatever function
  contains it; every later binding is discarded.
\<close>

theorem function_name_filter:
  "(names \<noteq> [] \<and> ''<anonymous>'' \<notin> set names \<longrightarrow>
      (\<forall>(key, info) \<in> set (extractHttpClientVariablesWithZodOutput sourceFile (Some names)).
         infoFunctionName info \<in> set names)) \<and>
   (''<anonymous>'' \<in> set names \<longrightarrow>
      extractHttpClientVariablesWithZodOutput sourceFile (Some names) =
        take 1 (List.map_filter binding (findHttpClientCallsWithZodOutput sourceFile)))"
proof (intro conjI impI)
  assume "names \<noteq> [] \<and> ''<anonymous>'' \<notin> set names"
  then show "\<forall>(key, info) \<in> set (extractHttpClientVariablesWithZodOutput sourceFile (Some names)).
         infoFunctionName info \<in> set names"
    unfolding extractHttpClientVariablesWithZodOutput_def
    by (intro extractLoop_names) simp_all
next
  assume "''<anonymous>'' \<in> set names"
  then show "extractHttpClientVariablesWithZodOutput sourceFile (Some names) =
        take 1 (List.map_filter binding (findHttpClientCallsWithZodOutput sourceFile))"
    unfolding extractHttpClientVariablesWithZodOutput_def by (rule extractLoop_first)
qed

text \<open>
  The theorem at the example file, once with the filter \<open>[loadUsers]\<close> and once with
  the filter \<open>[loadUsers, <anonymous>]\<close>.
\<close>

theorem function_name_filter_witness:
  "list_all (\<lambda>(key, info). infoFunctionName info \<in> set [''loadUsers''])
     (extractHttpClientVariablesWithZodOutput exampleFile (Some [''loadUsers''])) \<and>
   extractHttpClientVariablesWithZodOutput exampleFile (Some [''loadUsers'', ''<anonymous>'']) =
     take 1 (List.map_filter binding (findHttpClientCallsWithZodOutput exampleFile)) \<and>
   take 1 (List.map_filter binding (findHttpClientCallsWithZodOutput exampleFile)) =
     [(''http:loadUsers'',
       \<lparr>infoTypeName = ''UserOutputSchemaType'', infoFunctionName = ''loadUsers''\<rparr>)]"
proof -
  have t: "take 1 (List.map_filter binding (findHttpClientCallsWithZodOutput exampleFile)) =
     [(''http:loadUsers'',
       \<lparr>infoTypeName = ''UserOutputSchemaType'', infoFunctionName = ''loadUsers''\<rparr>)]"
    by (simp add: correlation_defs exampleFile_def map_filter_simps)
  from function_name_filter [of "[''loadUsers'']" exampleFile]
    function_name_filter [of "[''loadUsers'', ''<anonymous>'']" exampleFile] t
  show ?thesis by (simp add: list_all_iff)
qed

text \<open>
  With the filter \<open>[<anonymous>]\<close> on the example file the function name is not
  filtered: the
  map keeps the binding made inside \<open>loadUsers\<close>, a name that is neither in the filter
  nor the sentinel, and drops the binding made inside the anonymous arrow function.
\<close>

theorem anonymous_filter_counterexample:
  "extractHttpClientVariablesWithZodOutput exampleFile (Some [''<anonymous>'']) =
     [(''http:loadUsers'',
       \<lparr>infoTypeName = ''UserOutputSchemaType'', infoFunctionName = ''loadUsers''\<rparr>)] \<and>
   extractHttpClientVariablesWithZodOutput exampleFile None =
     [(''http:loadUsers'',
       \<lparr>infoTypeName = ''UserOutputSchemaType'', infoFunctionName = ''loadUsers''\<rparr>),
      (''inner:anonymous'',
       \<lparr>infoTypeName = ''PostOutputSchemaType'', infoFunctionName = ''anonymous''\<rparr>)]"
  by (simp add: correlation_defs exampleFile_def)

section \<open>Required properties in synthesized schemas\<close>

text \<open>
  C3. \<open>addRequiredToAllObjects\<close> descends through \<open>properties\<close> only and does nothing at
  a node whose type is not \<open>object\<close>. For the JSON array
  \<^verbatim>\<open>[{"id": 1, "user": {"name": "Ann"}}]\<close> the root of the inferred tree is an array
  node, so the synthesized schema is the inferred tree with the title set: neither the
  object node under \<open>items\<close> nor the object node \<open>user\<close> inside it gets a \<open>required\<close> list.
  For the element \<^verbatim>\<open>{"id": 1, "user": {"name": "Ann"}}\<close> alone both object nodes get
  one.
\<close>

theorem array_items_not_required:
  "jsontoJsonSchema (\<lambda>data. inferredArray)
     (JArray [JObject [(''id'', JNumber 1), (''user'', JObject [(''name'', JString ''Ann'')])]])
     ''Users'' =
   JsonSchema (Some ''array'') None None
     (Some (JsonSchema (Some ''object'')
        (Some [(''id'', numberSchema),
               (''user'', JsonSchema (Some ''object'') (Some [(''name'', stringSchema)])
                            None None None None)])
        None None None None))
     (Some ''Users'') None \<and>
   jsontoJsonSchema (\<lambda>data. inferredObject)
     (JObject [(''id'', JNumber 1), (''user'', JObject [(''name'', JString ''Ann'')])])
     ''User'' =
   JsonSchema (Some ''object'')
     (Some [(''id'', numberSchema),
            (''user'', JsonSchema (Some ''object'') (Some [(''name'', stringSchema)])
                         (Some [''name'']) None None None)])
     (Some [''id'', ''user'']) None (Some ''User'') None"
  by (simp add: jsontoJsonSchema_def inferredArray_def inferredObject_def numberSchema_def
      stringSchema_def)

section \<open>Caller detection\<close>

lemma split_append: "d \<notin> set a \<Longrightarrow> split d (a @ d # b) = a # split d b"
  by (induction a) auto

lemma split_first_line:
  "d \<notin> set a \<Longrightarrow> \<exists>ls. split d (a @ b) = (a @ takeWhile (\<lambda>c. c \<noteq> d) b) # ls"
proof (induction a)
  case Nil
  show ?case
  proof (induction b)
    case Nil
    then show ?case by simp
  next
    case (Cons c b)
    then show ?case by (auto split: list.splits)
  qed
next
  case (Cons c a)
  then show ?case by (auto split: list.splits)
qed

lemma pathChar_simps:
  "pathChar (codeUnit CHR ''.'')" "pathChar (codeUnit CHR ''t'')" "pathChar (codeUnit CHR ''s'')"
  "pathChar (codeUnit CHR ''j'')" "pathChar (codeUnit CHR ''/'')"
  "\<not> pathChar (codeUnit CHR '':'')" "\<not> pathChar (codeUnit CHR '')'')"
  "\<not> pathChar (codeUnit CHR 0x0A)"
  by (simp_all add: pathChar_def isSpace_def)

lemma pathBody_no_newline: "pathBody b \<Longrightarrow> codeUnit CHR 0x0A \<notin> set b"
  using pathChar_simps(8) by (auto simp: pathBody_def list_all_iff)

lemma units_simps [simp]:
  "units [] = []" "units (c # cs) = codeUnit c # units cs" "units (a @ b) = units a @ units b"
  by (simp_all add: units_def)

subsection \<open>The greedy class takes the whole path\<close>

lemma pathTail_single:
  "e \<in> {units ''ts'', units ''js''} \<Longrightarrow> pathChar c \<Longrightarrow>
   pathTail (c # codeUnit CHR ''.'' # e @ codeUnit CHR '':'' # rest) =
     Some (c # codeUnit CHR ''.'' # e)"
  using pathChar_simps by (auto simp: dotExtension_def extension_def)

lemma pathTail_full:
  assumes "e \<in> {units ''ts'', units ''js''}"
  shows "body \<noteq> [] \<Longrightarrow> list_all pathChar body \<Longrightarrow>
    pathTail (body @ codeUnit CHR ''.'' # e @ codeUnit CHR '':'' # rest) =
      Some (body @ codeUnit CHR ''.'' # e)"
proof (induction body)
  case Nil
  then show ?case by simp
next
  case (Cons c body)
  show ?case
  proof (cases "body = []")
    case True
    with Cons.prems assms show ?thesis
      using pathTail_single [of e c rest] by simp
  next
    case False
    with Cons show ?thesis by simp
  qed
qed

subsection \<open>No match begins before the parenthesis\<close>

lemma captureAt_no_slash: "codeUnit CHR ''/'' \<notin> set s \<Longrightarrow> captureAt s = None"
proof -
  assume n: "codeUnit CHR ''/'' \<notin> set s"
  have "\<not> startsWith s (units ''file://'')"
    using startsWith_set [of s "units ''file://''"] n by auto
  moreover have "slashPath s = None"
    using n by (cases s) (auto simp: slashPath_def)
  ultimately show ?thesis
    unfolding captureAt_def by (simp del: startsWith_Cons_Cons)
qed

lemma matchAt_no_slash: "codeUnit CHR ''/'' \<notin> set s \<Longrightarrow> matchAt s = None"
proof -
  assume n: "codeUnit CHR ''/'' \<notin> set s"
  then have "codeUnit CHR ''/'' \<notin> set (drop 1 s)" by (auto dest: in_set_dropD)
  with n show ?thesis
    unfolding matchAt_def by (simp add: captureAt_no_slash del: startsWith_Cons_Cons)
qed

lemma fileMatch_no_slash: "codeUnit CHR ''/'' \<notin> set s \<Longrightarrow> fileMatch s = None"
proof (induction s)
  case Nil
  then show ?case by (simp add: matchAt_no_slash)
next
  case (Cons c s)
  then have "matchAt (c # s) = None" by (intro matchAt_no_slash)
  with Cons show ?case by simp
qed

lemma startsWith_blocked:
  "x \<notin> set q \<Longrightarrow> d \<notin> set pat \<Longrightarrow> x \<in> set pat \<Longrightarrow> \<not> startsWith (q @ d # s) pat"
proof (induction q arbitrary: pat)
  case Nil
  then show ?case by (cases pat) auto
next
  case (Cons c q)
  then show ?case by (cases pat) auto
qed

lemma captureAt_blocked:
  assumes "codeUnit CHR ''/'' \<notin> set q" and "d \<in> {codeUnit CHR ''('', codeUnit CHR '' ''}"
  shows "captureAt (q @ d # s) = None"
proof -
  have "\<not> startsWith (q @ d # s) (units ''file://'')"
    using assms by (intro startsWith_blocked [where x = "codeUnit CHR ''/''"]) auto
  moreover have "slashPath (q @ d # s) = None"
    using assms by (cases q) (auto simp: slashPath_def)
  ultimately show ?thesis
    unfolding captureAt_def by (simp del: startsWith_Cons_Cons)
qed

lemma matchAt_in_prefix:
  assumes "codeUnit CHR ''/'' \<notin> set (c # q)"
    and "d \<in> {codeUnit CHR ''('', codeUnit CHR '' ''}"
  shows "matchAt (c # q @ d # s) = None"
proof -
  have a: "captureAt (q @ d # s) = None"
    using assms by (intro captureAt_blocked) auto
  have "captureAt ((c # q) @ d # s) = None"
    using assms by (intro captureAt_blocked) auto
  then have b: "captureAt (c # q @ d # s) = None" by simp
  show ?thesis
    unfolding matchAt_def using a b by (simp del: startsWith_Cons_Cons)
qed

lemma fileMatch_skip_prefix:
  "codeUnit CHR ''/'' \<notin> set q \<Longrightarrow> d \<in> {codeUnit CHR ''('', codeUnit CHR '' ''} \<Longrightarrow>
   fileMatch (q @ d # s) = fileMatch (d # s)"
proof (induction q)
  case Nil
  then show ?case by simp
next
  case (Cons c q)
  then have "matchAt (c # q @ d # s) = None"
    by (intro matchAt_in_prefix) auto
  with Cons show ?case by simp
qed

lemma fileMatch_at_path:
  assumes "d \<in> {codeUnit CHR ''('', codeUnit CHR '' ''}" and "pre \<in> {[], units ''file://''}"
    and "pathTail (body @ codeUnit CHR ''.'' # e @ codeUnit CHR '':'' # rest) =
      Some (body @ codeUnit CHR ''.'' # e)"
  shows "fileMatch
           (d # pre @ codeUnit CHR ''/'' # body @ codeUnit CHR ''.'' # e @ codeUnit CHR '':'' # rest) =
         Some (pre @ codeUnit CHR ''/'' # body @ codeUnit CHR ''.'' # e)"
  using assms by (auto simp: matchAt_def captureAt_def slashPath_def)

lemma fileMatch_frame:
  assumes "framePrefix p"
    and "pre \<in> {[], units ''file://''}"
    and "e \<in> {units ''ts'', units ''js''}" and "body \<noteq> []" and "list_all pathChar body"
  shows "fileMatch
           (p @ pre @ codeUnit CHR ''/'' # body @ codeUnit CHR ''.'' # e @ codeUnit CHR '':'' # rest) =
         Some (pre @ codeUnit CHR ''/'' # body @ codeUnit CHR ''.'' # e)"
proof -
  from assms(1) obtain q d where p: "p = q @ [d]"
    and d: "d \<in> {codeUnit CHR ''('', codeUnit CHR '' ''}"
    and q: "codeUnit CHR ''/'' \<notin> set q"
    by (cases p rule: rev_cases) (auto simp: framePrefix_def)
  have t: "pathTail (body @ codeUnit CHR ''.'' # e @ codeUnit CHR '':'' # rest) =
      Some (body @ codeUnit CHR ''.'' # e)"
    using assms(3-5) by (rule pathTail_full)
  have "fileMatch
      (q @ d # pre @ codeUnit CHR ''/'' # body @ codeUnit CHR ''.'' # e @ codeUnit CHR '':'' # rest) =
      fileMatch
        (d # pre @ codeUnit CHR ''/'' # body @ codeUnit CHR ''.'' # e @ codeUnit CHR '':'' # rest)"
    using q d by (rule fileMatch_skip_prefix)
  also have "\<dots> = Some (pre @ codeUnit CHR ''/'' # body @ codeUnit CHR ''.'' # e)"
    using d assms(2) t by (rule fileMatch_at_path)
  finally show ?thesis by (simp add: p)
qed

subsection \<open>One frame\<close>

lemma strip_protocol:
  "pre \<in> {[], units ''file://''} \<Longrightarrow>
   (if startsWith (pre @ codeUnit CHR ''/'' # s) (units ''file://'')
    then drop 7 (pre @ codeUnit CHR ''/'' # s)
    else pre @ codeUnit CHR ''/'' # s) = codeUnit CHR ''/'' # s"
  by auto

lemma callerCandidate_frame:
  assumes "framePrefix p" and "pre \<in> {[], units ''file://''}"
    and "e \<in> {units ''ts'', units ''js''}" and "pathBody body"
  shows "callerCandidate
           (p @ pre @ codeUnit CHR ''/'' # body @ codeUnit CHR ''.'' # e @ codeUnit CHR '':'' # rest) =
     (if isInternalLibrary (normalize (codeUnit CHR ''/'' # body @ codeUnit CHR ''.'' # e)) then None
      else Some (codeUnit CHR ''/'' # body @ codeUnit CHR ''.'' # e))"
proof -
  have m: "fileMatch
          (p @ pre @ codeUnit CHR ''/'' # body @ codeUnit CHR ''.'' # e @ codeUnit CHR '':'' # rest) =
         Some (pre @ codeUnit CHR ''/'' # body @ codeUnit CHR ''.'' # e)"
    using assms by (intro fileMatch_frame) (simp_all add: pathBody_def)
  note strip = strip_protocol [OF assms(2), of "body @ codeUnit CHR ''.'' # e"]
  show ?thesis
    by (simp only: callerCandidate_def m option.case Let_def strip) simp
qed

lemma scanLines_None: "\<forall>l \<in> set ls. callerCandidate l = None \<Longrightarrow> scanLines ls = None"
  by (induction ls) simp_all

lemmas probe_defs =
  getCallerFilePath_def callerCandidate_def matchAt_def captureAt_def slashPath_def
  dotExtension_def extension_def pathChar_def isSpace_def normalize_def isInternalLibrary_def
  isKatalistLibraryFile_def endsWith_def framePrefix_def pathBody_def Let_def

text \<open>
  C5. For every stack trace made of a first line without a slash, a frame
  \<open>prefix path:position\<close> whose path is library-internal, and a frame of the same form
  whose path is not, whatever follows it, \<open>getCallerFilePath\<close> returns the path of the
  second frame with a \<open>file://\<close> prefix stripped and otherwise as it stands in the trace:
  backslashes are replaced by slashes only in the copy that is classified, not in the
  returned path. Here a prefix has no slash and ends with \<open>(\<close> or a space, and a path is
  a slash, a non-empty run of code units other than \<open>)\<close>, \<open>:\<close> and the white space of
  \<^verbatim>\<open>\s\<close>, and \<open>.ts\<close> or \<open>.js\<close>. The function returns null when the trace is unavailable
  or empty, and when no line yields a path that is not library-internal.
\<close>

theorem caller_is_first_external_frame:
  assumes "codeUnit CHR ''/'' \<notin> set header" and "codeUnit CHR 0x0A \<notin> set header"
    and "framePrefix p1" and "framePrefix p2"
    and "pre1 \<in> {[], units ''file://''}" and "pre2 \<in> {[], units ''file://''}"
    and "e1 \<in> {units ''ts'', units ''js''}" and "e2 \<in> {units ''ts'', units ''js''}"
    and "pathBody libraryBody" and "pathBody userBody"
    and "codeUnit CHR 0x0A \<notin> set r1"
    and "isInternalLibrary (normalize (units ''/'' @ libraryBody @ units ''.'' @ e1))"
    and "\<not> isInternalLibrary (normalize (units ''/'' @ userBody @ units ''.'' @ e2))"
  shows "getCallerFilePath
           (Some (header @ [codeUnit CHR 0x0A] @
                  p1 @ pre1 @ units ''/'' @ libraryBody @ units ''.'' @ e1 @ units '':'' @ r1 @
                  [codeUnit CHR 0x0A] @
                  p2 @ pre2 @ units ''/'' @ userBody @ units ''.'' @ e2 @ units '':'' @ r2)) =
           Some (units ''/'' @ userBody @ units ''.'' @ e2) \<and>
         getCallerFilePath None = None \<and>
         getCallerFilePath (Some []) = None \<and>
         ((\<forall>l \<in> set (split (codeUnit CHR 0x0A) stack). callerCandidate l = None) \<longrightarrow>
            getCallerFilePath (Some stack) = None)"
proof -
  let ?nl = "codeUnit CHR 0x0A"
  let ?l1 = "p1 @ pre1 @ codeUnit CHR ''/'' # libraryBody @ codeUnit CHR ''.'' # e1 @
      codeUnit CHR '':'' # r1"
  let ?a2 = "p2 @ pre2 @ codeUnit CHR ''/'' # userBody @ codeUnit CHR ''.'' # e2 @
      [codeUnit CHR '':'']"
  let ?tail = "takeWhile (\<lambda>c. c \<noteq> ?nl) r2"
  have n1: "?nl \<notin> set ?l1"
    using assms(3,5,7,9,11) by (auto simp: framePrefix_def dest: pathBody_no_newline)
  have n2: "?nl \<notin> set ?a2"
    using assms(4,6,8,10) by (auto simp: framePrefix_def dest: pathBody_no_newline)
  obtain ls where l3: "split ?nl (?a2 @ r2) = (?a2 @ ?tail) # ls"
    using split_first_line [OF n2] by blast
  have s: "split ?nl (header @ ?nl # ?l1 @ ?nl # ?a2 @ r2) =
      header # ?l1 # (?a2 @ ?tail) # ls"
    by (simp only: split_append [OF assms(2)] split_append [OF n1] l3)
  have h: "callerCandidate header = None"
    using assms(1) by (simp add: callerCandidate_def fileMatch_no_slash)
  have f1: "callerCandidate ?l1 = None"
    using callerCandidate_frame [OF assms(3,5,7,9), of r1] assms(12) by simp
  have f2: "callerCandidate (?a2 @ ?tail) =
      Some (codeUnit CHR ''/'' # userBody @ codeUnit CHR ''.'' # e2)"
    using callerCandidate_frame [OF assms(4,6,8,10), of ?tail] assms(13) by simp
  have "scanLines (split ?nl (header @ ?nl # ?l1 @ ?nl # ?a2 @ r2)) =
      Some (codeUnit CHR ''/'' # userBody @ codeUnit CHR ''.'' # e2)"
    unfolding s using h f1 f2 by simp
  then have main: "getCallerFilePath
           (Some (header @ [codeUnit CHR 0x0A] @
                  p1 @ pre1 @ units ''/'' @ libraryBody @ units ''.'' @ e1 @ units '':'' @ r1 @
                  [codeUnit CHR 0x0A] @
                  p2 @ pre2 @ units ''/'' @ userBody @ units ''.'' @ e2 @ units '':'' @ r2)) =
           Some (units ''/'' @ userBody @ units ''.'' @ e2)"
    by (simp add: getCallerFilePath_def)
  have none: "(\<forall>l \<in> set (split ?nl stack). callerCandidate l = None) \<longrightarrow>
            getCallerFilePath (Some stack) = None"
    by (simp add: getCallerFilePath_def scanLines_None)
  from main none show ?thesis by (simp add: getCallerFilePath_def)
qed

text \<open>
  The theorem at the example trace: the first frame lies in \<open>node_modules/katalist\<close>,
  the second names the user file through a \<open>file://\<close> URL, a third frame follows.
\<close>

theorem caller_is_first_external_frame_witness:
  "isInternalLibrary (normalize (units ''/app/node_modules/katalist/dist/index.js'')) \<and>
   \<not> isInternalLibrary (normalize (units ''/home/dev/shop/src/api.ts'')) \<and>
   getCallerFilePath (Some (units exampleStack)) = Some (units ''/home/dev/shop/src/api.ts'')"
proof -
  have i: "isInternalLibrary (normalize (units ''/app/node_modules/katalist/dist/index.js''))"
    by (simp add: probe_defs)
  have u: "\<not> isInternalLibrary (normalize (units ''/home/dev/shop/src/api.ts''))"
    by (simp add: probe_defs)
  from caller_is_first_external_frame
    [where header = "units ''Error''" and ?p1.0 = "units ''    at get (''"
       and ?p2.0 = "units ''    at loadUser (''"
       and ?pre1.0 = "[]" and ?pre2.0 = "units ''file://''"
       and ?e1.0 = "units ''js''" and ?e2.0 = "units ''ts''"
       and libraryBody = "units ''app/node_modules/katalist/dist/index''"
       and userBody = "units ''home/dev/shop/src/api''" and ?r1.0 = "units ''120:15)''"
       and ?r2.0 = "units (''7:27)'' @ [CHR 0x0A] @
           ''    at main (/home/dev/shop/src/index.ts:3:1)'')"
       and stack = "[]"]
    i u
  have "getCallerFilePath (Some (units exampleStack)) = Some (units ''/home/dev/shop/src/api.ts'')"
    by (simp add: exampleStack_def framePrefix_def pathBody_def pathChar_def isSpace_def)
  with i u show ?thesis by simp
qed

text \<open>
  On a trace whose user frame has backslashes in its path the returned path is not
  normalized: it keeps them, while its normalized form has slashes.
\<close>

theorem backslash_path_counterexample:
  "getCallerFilePath (Some (units backslashStack)) =
     Some (units (''/home/dev/shop'' @ [CHR 0x5C] @ ''src'' @ [CHR 0x5C] @ ''api.ts'')) \<and>
   normalize (units (''/home/dev/shop'' @ [CHR 0x5C] @ ''src'' @ [CHR 0x5C] @ ''api.ts'')) =
     units ''/home/dev/shop/src/api.ts''"
  by (simp add: probe_defs backslashStack_def)

section \<open>Exceptions in the post-response hook\<close>

text \<open>
  The hook of \<open>post\<close>, \<open>put\<close> and \<open>delete\<close> runs the transform on the source file whenever
  one is given and the first part of the hook did not raise, also when it fails.
\<close>

lemma body_hook_runs_transform:
  assumes "optSourceFile options = Some path" and "path \<noteq> []"
    and "\<not> optGenerateSchema options"
  shows "bodyAfterResponse jsonToZodSchema transform options response =
     Inr (Some (case transform path of Inl _ \<Rightarrow> False | Inr _ \<Rightarrow> True))"
  using assms by (simp add: bodyAfterResponse_def tryTransform_def split: sum.splits)

text \<open>
  C4. For every invocation of a facade verb whose HTTP response arrives successfully
  (its status is in the range 200 to 299), if the response body parses as JSON and the
  schema synthesis does not raise on it, the caller gets the HTTP response whatever
  the source transformation does: an exception of the transform call never propagates.
  An exception raised by parsing the response body or by the synthesis is outside this
  guarantee.
\<close>

theorem facade_swallows_transform_errors:
  assumes "responseOk response"
    and "responseJson response = Inr data"
    and "\<forall>name e. jsonToZodSchema data name \<noteq> Inl e"
  shows "request v jsonToZodSchema transform options response = Inr response"
  using assms
  by (auto simp: request_def getAfterResponse_def bodyAfterResponse_def generateSchema_def
      split: json.splits sum.splits)

text \<open>The theorem at a \<open>put\<close> whose transform raises.\<close>

theorem facade_swallows_transform_errors_witness:
  "responseOk \<lparr>responseStatus = 200, responseJson = Inr (JObject [(''id'', JNumber 1)])\<rparr> \<and>
   request PUT (\<lambda>data name. Inr ''z.object({})'')
     (\<lambda>path. (Inl (Thrown ''transform failed'') :: error + unit)) exampleOptions
     \<lparr>responseStatus = 200, responseJson = Inr (JObject [(''id'', JNumber 1)])\<rparr> =
   Inr \<lparr>responseStatus = 200, responseJson = Inr (JObject [(''id'', JNumber 1)])\<rparr>"
  using facade_swallows_transform_errors
    [where response = "\<lparr>responseStatus = 200, responseJson = Inr (JObject [(''id'', JNumber 1)])\<rparr>"
       and data = "JObject [(''id'', JNumber 1)]"
       and jsonToZodSchema = "\<lambda>data name. Inr ''z.object({})''"
       and options = exampleOptions and v = PUT
       and transform = "\<lambda>path. (Inl (Thrown ''transform failed'') :: error + unit)"]
  by (simp add: responseOk_def)

text \<open>
  Parse and synthesis errors do propagate: with schema generation requested, a response
  with status 200 whose body is not JSON makes \<open>get\<close> fail with the parse error, and a
  synthesis that raises makes \<open>delete\<close> fail with its error, although the response
  arrived successfully and the transform would succeed.
\<close>

theorem parse_error_propagates_counterexample:
  "responseOk \<lparr>responseStatus = 200, responseJson = Inl (Thrown ''SyntaxError'')\<rparr> \<and>
   request GET (\<lambda>data name. Inr ''z.object({})'') (\<lambda>path. (Inr () :: error + unit))
     exampleOptions \<lparr>responseStatus = 200, responseJson = Inl (Thrown ''SyntaxError'')\<rparr> =
     Inl (Thrown ''SyntaxError'') \<and>
   request DELETE (\<lambda>data name. Inl (Thrown ''synthesis failed''))
     (\<lambda>path. (Inr () :: error + unit))
     exampleOptions \<lparr>responseStatus = 200, responseJson = Inr (JObject [(''id'', JNumber 1)])\<rparr> =
     Inl (Thrown ''synthesis failed'')"
  by (simp add: request_def getAfterResponse_def bodyAfterResponse_def generateSchema_def
      exampleOptions_def truthy_def responseOk_def)

end
